theory Spec2Isabelle
  imports Complex_Main
begin

section \<open>The Get Offer flow: values, effects and errors\<close>

text \<open>
  The program is the BuildCasa Get Offer flow: a set of Alpine stores (view-models, a flow
  state machine, the flow state and the modal helpers) held in one global object
  \<^verbatim>\<open>$store\<close>. The stores are modelled as records, the global object as the record
  \<open>store\<close>, and every handler as a function from the store to the store it leaves behind.

  JavaScript values that may be absent are options: \<open>None\<close> is \<^verbatim>\<open>undefined\<close> (or
  \<^verbatim>\<open>null\<close> for the estimate bounds). An object literal that the program uses as a
  dictionary is a map over the literal's own keys; indexing it also finds the members that
  every object inherits, which \<open>getProperty\<close> below makes explicit. Everything the program does to the outside
  (analytics records, network requests, the confirmation dialog) and every call of the state
  machine is appended to the \<open>trace\<close> of the store, in the order in which it happens.
\<close>

datatype js_error = TypeError | NetworkError

datatype jsval = JUndefined | JNull | JString string | JNumber real

definition jstr :: "string option \<Rightarrow> jsval" where
  "jstr v = (case v of None \<Rightarrow> JUndefined | Some s \<Rightarrow> JString s)"

definition jnum :: "real option \<Rightarrow> jsval" where
  "jnum v = (case v of None \<Rightarrow> JNull | Some r \<Rightarrow> JNumber r)"

text \<open>Truthiness of a value that is a string or absent: \<^verbatim>\<open>!!v\<close>.\<close>

definition truthy :: "string option \<Rightarrow> bool" where
  "truthy v = (case v of None \<Rightarrow> False | Some s \<Rightarrow> s \<noteq> [])"

type_synonym properties = "(string \<times> jsval) list"

text \<open>
  \<^verbatim>\<open>object[key]\<close> on an object literal: the value of the literal's own key, and for any
  other key the member of that name that the literal inherits from \<^verbatim>\<open>Object.prototype\<close>,
  if there is one. Every inherited member is truthy (a function, or the prototype itself for
  \<^verbatim>\<open>__proto__\<close>) and has neither a \<^verbatim>\<open>transitions\<close> nor a \<^verbatim>\<open>target\<close> property.
\<close>

definition objectPrototypeMembers :: "string list" where
  "objectPrototypeMembers =
     [''constructor'', ''hasOwnProperty'', ''isPrototypeOf'', ''propertyIsEnumerable'',
      ''toLocaleString'', ''toString'', ''valueOf'', ''__proto__'', ''__defineGetter__'',
      ''__defineSetter__'', ''__lookupGetter__'', ''__lookupSetter__'']"

datatype 'a property = Own 'a | Inherited | Absent

definition getProperty :: "(string \<rightharpoonup> 'a) \<Rightarrow> string \<Rightarrow> 'a property" where
  "getProperty obj key =
     (case obj key of
        Some v \<Rightarrow> Own v
      | None \<Rightarrow> if key \<in> set objectPrototypeMembers then Inherited else Absent)"

section \<open>createFlowStateMachine\<close>

record transition_def =
  target :: string

type_synonym transitions = "string \<rightharpoonup> transition_def"

record state_def =
  transitions :: transitions

text \<open>The shared transition fragments; the states spread them into their own tables.\<close>

definition submitAddressTransition :: transitions where
  "submitAddressTransition = [''SUBMIT_ADDRESS'' \<mapsto> \<lparr>target = ''addressFormProcessing''\<rparr>]"

definition modalSubmitAddressTransition :: transitions where
  "modalSubmitAddressTransition =
     [''SUBMIT_ADDRESS'' \<mapsto> \<lparr>target = ''modalAddressFormProcessing''\<rparr>]"

definition submitContactTransition :: transitions where
  "submitContactTransition = [''SUBMIT_CONTACT'' \<mapsto> \<lparr>target = ''contactFormProcessing''\<rparr>]"

definition exitTransition :: transitions where
  "exitTransition = [''EXIT'' \<mapsto> \<lparr>target = ''default''\<rparr>]"

definition defaultState :: string where
  "defaultState = ''default''"

text \<open>
  The \<^verbatim>\<open>states\<close> object. A spread \<^verbatim>\<open>...fragment\<close> is map addition: a later key
  overrides an earlier one.
\<close>

definition states :: "string \<rightharpoonup> state_def" where
  "states =
    [''default'' \<mapsto> \<lparr>transitions =
        submitAddressTransition ++
        [''START_MODAL_FLOW'' \<mapsto> \<lparr>target = ''modalAddressForm''\<rparr>]\<rparr>,
     ''addressFormProcessing'' \<mapsto> \<lparr>transitions =
        [''SUCCESS'' \<mapsto> \<lparr>target = ''contactForm''\<rparr>,
         ''SKIP_CONTACT'' \<mapsto> \<lparr>target = ''estimateResults''\<rparr>,
         ''ERROR'' \<mapsto> \<lparr>target = ''addressFormError''\<rparr>]\<rparr>,
     ''addressFormError'' \<mapsto> \<lparr>transitions = Map.empty ++ submitAddressTransition\<rparr>,
     ''modalAddressForm'' \<mapsto> \<lparr>transitions =
        modalSubmitAddressTransition ++ exitTransition\<rparr>,
     ''modalAddressFormProcessing'' \<mapsto> \<lparr>transitions =
        [''SUCCESS'' \<mapsto> \<lparr>target = ''contactForm''\<rparr>,
         ''SKIP_CONTACT'' \<mapsto> \<lparr>target = ''estimateResults''\<rparr>,
         ''ERROR'' \<mapsto> \<lparr>target = ''modalAddressFormError''\<rparr>] ++ exitTransition\<rparr>,
     ''modalAddressFormError'' \<mapsto> \<lparr>transitions =
        modalSubmitAddressTransition ++ exitTransition\<rparr>,
     ''contactForm'' \<mapsto> \<lparr>transitions = submitContactTransition ++ exitTransition\<rparr>,
     ''contactFormProcessing'' \<mapsto> \<lparr>transitions =
        [''SUCCESS'' \<mapsto> \<lparr>target = ''estimateResults''\<rparr>,
         ''ERROR'' \<mapsto> \<lparr>target = ''contactFormError''\<rparr>] ++ exitTransition\<rparr>,
     ''contactFormError'' \<mapsto> \<lparr>transitions = submitContactTransition ++ exitTransition\<rparr>,
     ''estimateResults'' \<mapsto> \<lparr>transitions =
        [''SCHEDULE'' \<mapsto> \<lparr>target = ''scheduleConsultation''\<rparr>,
         ''REQUEST_COMMUNITY'' \<mapsto> \<lparr>target = ''requestedCommunity''\<rparr>] ++ exitTransition\<rparr>,
     ''scheduleConsultation'' \<mapsto> \<lparr>transitions = Map.empty ++ exitTransition\<rparr>,
     ''requestedCommunity'' \<mapsto> \<lparr>transitions = Map.empty ++ exitTransition\<rparr>]"

text \<open>
  \<^verbatim>\<open>transition(currentState, event)\<close>. The result is the value returned, a state or
  \<^verbatim>\<open>undefined\<close> (\<open>None\<close>), and the analytics records emitted on the way (name and
  properties of each \<^verbatim>\<open>trackEvent\<close> call).

  \<^verbatim>\<open>this.states[currentState]\<close> is \<^verbatim>\<open>undefined\<close> for a state that the table does
  not have, and reading its \<^verbatim>\<open>transitions\<close> throws a TypeError; for the name of an
  inherited member it is that member, whose \<^verbatim>\<open>transitions\<close> is \<^verbatim>\<open>undefined\<close>, and
  indexing that by the event throws a TypeError as well.

  \<^verbatim>\<open>currentStateDefinition.transitions[event]\<close> is \<^verbatim>\<open>undefined\<close> for an event that
  is neither a key of the state's transitions nor the name of an inherited member: the
  invalid transition is recorded and the state returned. For the name of an inherited member
  it is that member, which is truthy, so that the check \<^verbatim>\<open>!destinationTransition\<close> lets
  it pass, and its \<^verbatim>\<open>target\<close>, which is \<^verbatim>\<open>undefined\<close>, is returned.
\<close>

definition transition ::
  "string \<Rightarrow> string \<Rightarrow> js_error + string option \<times> (string \<times> properties) list" where
  "transition currentState event =
    (case getProperty states currentState of
       Absent \<Rightarrow> Inl TypeError
     | Inherited \<Rightarrow> Inl TypeError
     | Own currentStateDefinition \<Rightarrow>
        (case getProperty (transitions currentStateDefinition) event of
           Absent \<Rightarrow>
             Inr (Some currentState,
                  [(''Invalid State Transition Triggered'',
                    [(''current_state_str'', JString currentState),
                     (''event_str'', JString event)])])
         | Inherited \<Rightarrow> Inr (None, [])
         | Own destinationTransition \<Rightarrow> Inr (Some (target destinationTransition), [])))"

text \<open>
  Which transition the table defines for a state and an event, if any: the target under
  the event among the own keys of the state's transitions.
\<close>

definition defined_transition :: "string \<Rightarrow> string \<Rightarrow> string option" where
  "defined_transition s e =
     (case states s of
        None \<Rightarrow> None
      | Some d \<Rightarrow> map_option target (transitions d e))"

text \<open>
  The reference topology of the specification, edge by edge:
  source state, event, target state.
\<close>

definition reference_graph :: "(string \<times> string \<times> string) list" where
  "reference_graph =
    [(''default'', ''SUBMIT_ADDRESS'', ''addressFormProcessing''),
     (''default'', ''START_MODAL_FLOW'', ''modalAddressForm''),
     (''addressFormProcessing'', ''SUCCESS'', ''contactForm''),
     (''addressFormProcessing'', ''SKIP_CONTACT'', ''estimateResults''),
     (''addressFormProcessing'', ''ERROR'', ''addressFormError''),
     (''addressFormError'', ''SUBMIT_ADDRESS'', ''addressFormProcessing''),
     (''modalAddressForm'', ''SUBMIT_ADDRESS'', ''modalAddressFormProcessing''),
     (''modalAddressForm'', ''EXIT'', ''default''),
     (''modalAddressFormProcessing'', ''SUCCESS'', ''contactForm''),
     (''modalAddressFormProcessing'', ''SKIP_CONTACT'', ''estimateResults''),
     (''modalAddressFormProcessing'', ''ERROR'', ''modalAddressFormError''),
     (''modalAddressFormProcessing'', ''EXIT'', ''default''),
     (''modalAddressFormError'', ''SUBMIT_ADDRESS'', ''modalAddressFormProcessing''),
     (''modalAddressFormError'', ''EXIT'', ''default''),
     (''contactForm'', ''SUBMIT_CONTACT'', ''contactFormProcessing''),
     (''contactForm'', ''EXIT'', ''default''),
     (''contactFormProcessing'', ''SUCCESS'', ''estimateResults''),
     (''contactFormProcessing'', ''ERROR'', ''contactFormError''),
     (''contactFormProcessing'', ''EXIT'', ''default''),
     (''contactFormError'', ''SUBMIT_CONTACT'', ''contactFormProcessing''),
     (''contactFormError'', ''EXIT'', ''default''),
     (''estimateResults'', ''SCHEDULE'', ''scheduleConsultation''),
     (''estimateResults'', ''REQUEST_COMMUNITY'', ''requestedCommunity''),
     (''estimateResults'', ''EXIT'', ''default''),
     (''scheduleConsultation'', ''EXIT'', ''default''),
     (''requestedCommunity'', ''EXIT'', ''default'')]"

section \<open>The stores\<close>

text \<open>A match of the typeahead response, as the address view-model keeps it.\<close>

record match =
  address :: "string option"
  match_context :: "string option"
  ll_uuid :: "string option"
  score :: real

text \<open>The parcel details that \<^verbatim>\<open>filterParcelDetails\<close> builds.\<close>

record parcel =
  apn :: "string option"
  jurisdiction :: "string option"
  parcel_address :: "string option"
  city :: "string option"
  state :: "string option"
  zip :: "string option"

text \<open>
  The address view-model. \<open>selectedMatch\<close> and \<open>parcelDetails\<close> are \<open>None\<close> when the
  program holds the empty object \<^verbatim>\<open>{}\<close> there. \<^verbatim>\<open>submitButtonText\<close>, which only
  \<^verbatim>\<open>init\<close> writes, from the page, is left out of both view-models that have it.
\<close>

record addressViewModel =
  inputValue :: string
  matches :: "match list"
  keyboardNavIndex :: int
  selectedMatch :: "match option"
  parcelDetails :: "parcel option"
  errorMessage :: string

definition isSelected :: "addressViewModel \<Rightarrow> bool" where
  "isSelected a = (case selectedMatch a of None \<Rightarrow> False | Some m \<Rightarrow> truthy (ll_uuid m))"

definition hasParcelDetails :: "addressViewModel \<Rightarrow> bool" where
  "hasParcelDetails a =
     (case parcelDetails a of
        None \<Rightarrow> False
      | Some p \<Rightarrow> truthy (jurisdiction p) \<and> truthy (apn p))"

record contactViewModel =
  firstName :: string
  lastName :: string
  email :: string
  phone :: string
  desiredTimeline :: string
  contactErrorMessage :: string
  isSubmitted :: bool
  lotAnalysisStep :: string

record jurisdiction_obj =
  status :: "string option"

record estimate_obj =
  low :: "real option"
  high :: "real option"

record estimateViewModel =
  estimateJurisdiction :: jurisdiction_obj
  estimate :: estimate_obj

definition hasResults :: "estimateViewModel \<Rightarrow> bool" where
  "hasResults e = truthy (status (estimateJurisdiction e))"

definition hasActiveJurisdiction :: "estimateViewModel \<Rightarrow> bool" where
  "hasActiveJurisdiction e = (status (estimateJurisdiction e) = Some ''active'')"

text \<open>A number is truthy unless it is zero; \<^verbatim>\<open>null\<close> is not.\<close>

definition hasEstimate :: "estimateViewModel \<Rightarrow> bool" where
  "hasEstimate e =
     ((case low (estimate e) of None \<Rightarrow> False | Some r \<Rightarrow> r \<noteq> 0) \<and>
      (case high (estimate e) of None \<Rightarrow> False | Some r \<Rightarrow> r \<noteq> 0))"

definition estimateViewModel_init :: "estimateViewModel \<Rightarrow> estimateViewModel" where
  "estimateViewModel_init e =
     e\<lparr>estimateJurisdiction := \<lparr>status = Some []\<rparr>,
        estimate := \<lparr>low = None, high = None\<rparr>\<rparr>"

text \<open>The payloads of the two POST requests. The caller's \<^verbatim>\<open>options\<close> are spread first.\<close>

record estimate_payload =
  estimateOptions :: properties
  payloadApn :: "string option"
  payloadJurisdiction :: "string option"
  payloadAddress :: "string option"
  payloadCity :: "string option"
  payloadState :: "string option"
  payloadZip :: "string option"

record lead_payload =
  leadOptions :: properties
  leadFirstName :: string
  leadLastName :: string
  leadEmail :: string
  leadPhone :: string
  leadDesiredTimeline :: string
  leadParcel :: "parcel option"

text \<open>
  What the program does, in order: calls of the state machine (current state and event),
  analytics records, requests, the confirmation dialog with the user's answer, and the calls
  on the page and on the keyboard event.
\<close>

datatype effect =
    Transition string string
  | TrackEvent string properties
  | FetchAddressMatches string
  | FetchParcelDetails "string option"
  | FetchEstimateResults estimate_payload
  | CreateLead lead_payload
  | Confirm string bool
  | Blur
  | PreventDefault
  | StopPropagation
  | LoadCalendly

record store =
  addressViewModel :: addressViewModel
  contactViewModel :: contactViewModel
  estimateViewModel :: estimateViewModel
  flowState :: string
  trace :: "effect list"

text \<open>\<^verbatim>\<open>trackEvent\<close> never throws into its caller; the call itself is the record.\<close>

definition trackEvent :: "string \<Rightarrow> properties \<Rightarrow> store \<Rightarrow> store" where
  "trackEvent eventName eventProperties s =
     s\<lparr>trace := trace s @ [TrackEvent eventName eventProperties]\<rparr>"

text \<open>The events that the handlers fire, each by its literal name.\<close>

datatype flow_event =
    SUBMIT_ADDRESS
  | START_MODAL_FLOW
  | SUCCESS
  | SKIP_CONTACT
  | ERROR
  | EXIT
  | SUBMIT_CONTACT
  | SCHEDULE
  | REQUEST_COMMUNITY

fun eventName :: "flow_event \<Rightarrow> string" where
  "eventName SUBMIT_ADDRESS = ''SUBMIT_ADDRESS''"
| "eventName START_MODAL_FLOW = ''START_MODAL_FLOW''"
| "eventName SUCCESS = ''SUCCESS''"
| "eventName SKIP_CONTACT = ''SKIP_CONTACT''"
| "eventName ERROR = ''ERROR''"
| "eventName EXIT = ''EXIT''"
| "eventName SUBMIT_CONTACT = ''SUBMIT_CONTACT''"
| "eventName SCHEDULE = ''SCHEDULE''"
| "eventName REQUEST_COMMUNITY = ''REQUEST_COMMUNITY''"

text \<open>
  The statement that every handler uses to fire an event:
  \<^verbatim>\<open>$store.flowState.value = $store.flowStateMachine.transition($store.flowState.value, "EVENT")\<close>.
  No event that a handler fires is the name of an inherited member, so here
  \<open>transition\<close> returns a state or throws, never \<^verbatim>\<open>undefined\<close>: the last case of the
  definition cannot arise and is there because the function is total.
\<close>

definition fireTransition :: "flow_event \<Rightarrow> store \<Rightarrow> js_error + store" where
  "fireTransition event s =
     (case transition (flowState s) (eventName event) of
        Inl e \<Rightarrow> Inl e
      | Inr (Some newState, tracked) \<Rightarrow>
          Inr (s\<lparr>flowState := newState,
                 trace := trace s @ Transition (flowState s) (eventName event) #
                            map (\<lambda>(n, p). TrackEvent n p) tracked\<rparr>)
      | Inr (None, tracked) \<Rightarrow> Inl TypeError)"

text \<open>\<^verbatim>\<open>createFlowState\<close>: \<^verbatim>\<open>init\<close> sets the value to the machine's default state.\<close>

definition flowState_init :: "store \<Rightarrow> store" where
  "flowState_init s = s\<lparr>flowState := defaultState\<rparr>"

section \<open>The services\<close>

text \<open>
  The collaborators behind \<^verbatim>\<open>fetch\<close> and \<^verbatim>\<open>confirm\<close>. A request that fails, or that is
  answered with a status that is not OK, throws: the answer is \<open>Inl\<close>. The parcel service
  answers with the list \<^verbatim>\<open>results\<close>, each entry reduced to its \<^verbatim>\<open>properties.fields\<close>.
\<close>

record regrid_fields =
  parcelnumb :: "string option"
  county :: "string option"
  fields_address :: "string option"
  scity :: "string option"
  state2 :: "string option"
  szip :: "string option"

record estimate_results =
  resultsJurisdiction :: jurisdiction_obj
  resultsEstimate :: estimate_obj

record services =
  typeahead :: "string \<Rightarrow> js_error + match list"
  parcelLookup :: "string option \<Rightarrow> js_error + regrid_fields list"
  getEstimate :: "estimate_payload \<Rightarrow> js_error + estimate_results"
  postLead :: "lead_payload \<Rightarrow> js_error + unit"
  confirm :: "string \<Rightarrow> bool"

section \<open>The typeahead matches\<close>

definition is_digit :: "char \<Rightarrow> bool" where
  "is_digit c = (c \<in> set ''0123456789'')"

text \<open>The characters that \<^verbatim>\<open>.\<close> of a regular expression does not match.\<close>

definition is_line_terminator :: "char \<Rightarrow> bool" where
  "is_line_terminator c = (c = CHR 0x0A \<or> c = CHR 0x0D)"

text \<open>
  \<^verbatim>\<open>address.match(/^[0-9].*[^0-9]$/)\<close> finds a match: the first character is a digit, the
  last one is another character that is not a digit, and no line ends in between.
\<close>

definition address_pattern :: "string \<Rightarrow> bool" where
  "address_pattern a =
     (case a of
        [] \<Rightarrow> False
      | c # rest \<Rightarrow>
          is_digit c \<and> rest \<noteq> [] \<and> \<not> is_digit (last rest) \<and>
          list_all (\<lambda>x. \<not> is_line_terminator x) (butlast rest))"

definition compareMatchesScores :: "match \<Rightarrow> match \<Rightarrow> int" where
  "compareMatchesScores a b =
     (if score a > score b then - 1
      else if score a < score b then 1
      else 0)"

text \<open>
  \<^verbatim>\<open>Array.prototype.sort\<close> with a comparison function: a stable sort, here by insertion.
  An element goes in front of the first one that the comparison does not put before it.
\<close>

fun insort_cmp :: "('a \<Rightarrow> 'a \<Rightarrow> int) \<Rightarrow> 'a \<Rightarrow> 'a list \<Rightarrow> 'a list" where
  "insort_cmp cmp x [] = [x]"
| "insort_cmp cmp x (y # ys) =
     (if cmp x y \<le> 0 then x # y # ys else y # insort_cmp cmp x ys)"

definition js_sort :: "('a \<Rightarrow> 'a \<Rightarrow> int) \<Rightarrow> 'a list \<Rightarrow> 'a list" where
  "js_sort cmp xs = foldr (insort_cmp cmp) xs []"

definition keepMatch :: "match \<Rightarrow> bool" where
  "keepMatch m =
     (truthy (ll_uuid m) \<and> truthy (address m) \<and>
      (case address m of None \<Rightarrow> False | Some a \<Rightarrow> address_pattern a))"

definition filterSortAndSliceAddressMatches :: "match list \<Rightarrow> match list" where
  "filterSortAndSliceAddressMatches regridTypeaheadResponseData =
     (let filteredAndSortedMatches =
            js_sort compareMatchesScores (filter keepMatch regridTypeaheadResponseData);
          slicedMatches = take 10 filteredAndSortedMatches
      in slicedMatches)"

definition fetchAddressMatches :: "services \<Rightarrow> string \<Rightarrow> js_error + match list" where
  "fetchAddressMatches srv query =
     (case typeahead srv query of
        Inl e \<Rightarrow> Inl e
      | Inr responseData \<Rightarrow> Inr (filterSortAndSliceAddressMatches responseData))"

section \<open>Parcel details, estimate and lead\<close>

text \<open>\<^verbatim>\<open>results[0].properties.fields\<close> throws a TypeError when there is no first result.\<close>

definition filterParcelDetails :: "regrid_fields list \<Rightarrow> js_error + parcel" where
  "filterParcelDetails regridParcelResponseData =
     (case regridParcelResponseData of
        [] \<Rightarrow> Inl TypeError
      | regridResultFields # _ \<Rightarrow>
          Inr \<lparr>apn = parcelnumb regridResultFields,
               jurisdiction = county regridResultFields,
               parcel_address = fields_address regridResultFields,
               city = scity regridResultFields,
               state = state2 regridResultFields,
               zip = szip regridResultFields\<rparr>)"

definition fetchParcelDetails :: "services \<Rightarrow> string option \<Rightarrow> js_error + parcel" where
  "fetchParcelDetails srv ident =
     (case parcelLookup srv ident of
        Inl e \<Rightarrow> Inl e
      | Inr responseData \<Rightarrow> filterParcelDetails responseData)"

definition fetchEstimateResults :: "services \<Rightarrow> estimate_payload \<Rightarrow> js_error + estimate_results" where
  "fetchEstimateResults srv payload = getEstimate srv payload"

definition createLead :: "services \<Rightarrow> lead_payload \<Rightarrow> js_error + unit" where
  "createLead srv payload = postLead srv payload"

text \<open>\<^verbatim>\<open>String.prototype.trim\<close>, on the white space of the first 256 code points.\<close>

definition is_white_space :: "char \<Rightarrow> bool" where
  "is_white_space c =
     (c \<in> {CHR 0x09, CHR 0x0A, CHR 0x0B, CHR 0x0C, CHR 0x0D, CHR 0x20, CHR 0xA0})"

definition trim :: "string \<Rightarrow> string" where
  "trim s = rev (dropWhile is_white_space (rev (dropWhile is_white_space s)))"

text \<open>The fields of the selected match and of the parcel details, as a handler reads them.\<close>

definition selected :: "(match \<Rightarrow> string option) \<Rightarrow> store \<Rightarrow> string option" where
  "selected f s =
     (case selectedMatch (addressViewModel s) of None \<Rightarrow> None | Some m \<Rightarrow> f m)"

definition detail :: "(parcel \<Rightarrow> string option) \<Rightarrow> parcel option \<Rightarrow> string option" where
  "detail f pd = (case pd of None \<Rightarrow> None | Some p \<Rightarrow> f p)"

definition details :: "(parcel \<Rightarrow> string option) \<Rightarrow> store \<Rightarrow> string option" where
  "details f s = detail f (parcelDetails (addressViewModel s))"

section \<open>createAddressViewModel\<close>

text \<open>
  The asynchronous handlers are modelled as one uninterrupted run, from the call to the
  moment the last request has been answered: no other handler runs in between.
  A handler answers \<open>Inl\<close> when an exception leaves it.
\<close>

definition handleInput :: "services \<Rightarrow> store \<Rightarrow> js_error + store" where
  "handleInput srv s =
     (let a = addressViewModel s;
          a1 = (if isSelected a then a\<lparr>selectedMatch := None\<rparr> else a);
          a2 = (if hasParcelDetails a1 then a1\<lparr>parcelDetails := None\<rparr> else a1);
          e1 = (if hasResults (estimateViewModel s)
                then estimateViewModel_init (estimateViewModel s) else estimateViewModel s);
          c1 = (if isSubmitted (contactViewModel s)
                then (contactViewModel s)\<lparr>isSubmitted := False\<rparr> else contactViewModel s);
          s1 = s\<lparr>addressViewModel := a2, estimateViewModel := e1, contactViewModel := c1,
                 trace := trace s @ [FetchAddressMatches (inputValue a2)]\<rparr>
      in case fetchAddressMatches srv (inputValue a2) of
           Inr found \<Rightarrow> Inr (s1\<lparr>addressViewModel := a2\<lparr>matches := found\<rparr>\<rparr>)
         | Inl error \<Rightarrow>
             fireTransition ERROR
               (s1\<lparr>addressViewModel := a2\<lparr>errorMessage :=
                  ''There was an error finding your address. Please try again, or contact us for help.''\<rparr>\<rparr>))"

definition handleMatchSelection :: "match \<Rightarrow> store \<Rightarrow> store" where
  "handleMatchSelection m s =
     trackEvent ''Address Selected''
       [(''address_str'', jstr (address m)),
        (''context_str'', jstr (match_context m)),
        (''regrid_ll_uuid_str'', jstr (ll_uuid m))]
       (s\<lparr>addressViewModel := (addressViewModel s)
            \<lparr>selectedMatch := Some m,
             inputValue := (case address m of None \<Rightarrow> ''undefined'' | Some x \<Rightarrow> x) @ '', '' @
                           (case match_context m of None \<Rightarrow> ''undefined'' | Some x \<Rightarrow> x),
             matches := [],
             keyboardNavIndex := - 1\<rparr>\<rparr>)"

text \<open>
  \<^verbatim>\<open>handleKeydown(event)\<close>, given \<^verbatim>\<open>event.key\<close>. With Enter and an index outside the
  list, \<^verbatim>\<open>this.matches[this.keyboardNavIndex]\<close> is \<^verbatim>\<open>undefined\<close> and
  \<^verbatim>\<open>handleMatchSelection\<close> throws a TypeError on reading its address.
\<close>

definition handleKeydown :: "string \<Rightarrow> store \<Rightarrow> js_error + store" where
  "handleKeydown key s =
     (let a = addressViewModel s in
      if key \<noteq> ''Enter'' \<and> key \<noteq> ''ArrowUp'' \<and> key \<noteq> ''ArrowDown'' then Inr s
      else if isSelected a \<or> length (matches a) = 0 then Inr s
      else
        (let s1 = s\<lparr>trace := trace s @ [PreventDefault, StopPropagation]\<rparr> in
         if key = ''Enter'' \<and> keyboardNavIndex a \<noteq> - 1 then
           (if 0 \<le> keyboardNavIndex a \<and> keyboardNavIndex a < int (length (matches a))
            then Inr (handleMatchSelection (matches a ! nat (keyboardNavIndex a)) s1)
            else Inl TypeError)
         else if key = ''ArrowUp'' then
           Inr (s1\<lparr>addressViewModel := a\<lparr>keyboardNavIndex :=
                  (if keyboardNavIndex a \<le> - 1
                   then int (length (matches a)) - 1
                   else keyboardNavIndex a - 1)\<rparr>\<rparr>)
         else if key = ''ArrowDown'' then
           Inr (s1\<lparr>addressViewModel := a\<lparr>keyboardNavIndex :=
                  (if keyboardNavIndex a \<ge> int (length (matches a)) - 1
                   then - 1
                   else keyboardNavIndex a + 1)\<rparr>\<rparr>)
         else Inr s1))"

text \<open>
  A \<^verbatim>\<open>try\<close> block: the store when the block ends, and the exception if it ended by one.
\<close>

type_synonym block = "store \<Rightarrow> js_error option \<times> store"

definition andThen :: "block \<Rightarrow> block \<Rightarrow> block" where
  "andThen f g s = (case f s of (None, s') \<Rightarrow> g s' | (Some e, s') \<Rightarrow> (Some e, s'))"

definition fireInBlock :: "flow_event \<Rightarrow> block" where
  "fireInBlock event s =
     (case fireTransition event s of Inl e \<Rightarrow> (Some e, s) | Inr s' \<Rightarrow> (None, s'))"

text \<open>\<^verbatim>\<open>try { body } catch (error) { handler }\<close>.\<close>

definition tryCatch :: "block \<Rightarrow> block \<Rightarrow> block" where
  "tryCatch body handler s =
     (case body s of (None, s') \<Rightarrow> (None, s') | (Some error, s') \<Rightarrow> handler s')"

text \<open>What the caller of a handler sees of the block that is the handler's body.\<close>

definition leave :: "js_error option \<times> store \<Rightarrow> js_error + store" where
  "leave r = (case r of (None, s) \<Rightarrow> Inr s | (Some e, s) \<Rightarrow> Inl e)"

definition fetchParcelStep :: "services \<Rightarrow> block" where
  "fetchParcelStep srv s =
     (if \<not> hasParcelDetails (addressViewModel s) then
        (let s1 = s\<lparr>trace := trace s @ [FetchParcelDetails (selected ll_uuid s)]\<rparr> in
         case fetchParcelDetails srv (selected ll_uuid s) of
           Inl e \<Rightarrow> (Some e, s1)
         | Inr p \<Rightarrow>
             (None, s1\<lparr>addressViewModel := (addressViewModel s1)\<lparr>parcelDetails := Some p\<rparr>\<rparr>))
      else (None, s))"

text \<open>The payload of the estimate request, built from the parcel details held then.\<close>

definition fetchEstimatePayload :: "properties \<Rightarrow> parcel option \<Rightarrow> estimate_payload" where
  "fetchEstimatePayload options pd =
     \<lparr>estimateOptions = options,
      payloadApn = detail apn pd,
      payloadJurisdiction = detail jurisdiction pd,
      payloadAddress = detail parcel_address pd,
      payloadCity = detail city pd,
      payloadState = detail state pd,
      payloadZip = detail zip pd\<rparr>"

definition fetchEstimateStep :: "services \<Rightarrow> properties \<Rightarrow> block" where
  "fetchEstimateStep srv options s =
     (if \<not> hasResults (estimateViewModel s) then
        (let payload = fetchEstimatePayload options (parcelDetails (addressViewModel s));
             s1 = s\<lparr>trace := trace s @ [FetchEstimateResults payload]\<rparr>
         in case fetchEstimateResults srv payload of
              Inl e \<Rightarrow> (Some e, s1)
            | Inr estimateResults \<Rightarrow>
                (None, s1\<lparr>estimateViewModel := (estimateViewModel s1)
                            \<lparr>estimateJurisdiction := resultsJurisdiction estimateResults,
                             estimate := resultsEstimate estimateResults\<rparr>\<rparr>))
      else (None, s))"

definition addressProperties :: "store \<Rightarrow> properties" where
  "addressProperties s =
     [(''address_str'', jstr (details parcel_address s)),
      (''address_city_str'', jstr (details city s)),
      (''address_state_str'', jstr (details state s)),
      (''address_zip_str'', jstr (details zip s))]"

definition estimateProperties :: "store \<Rightarrow> properties" where
  "estimateProperties s =
     [(''jurisdiction_status_str'', jstr (status (estimateJurisdiction (estimateViewModel s)))),
      (''estimate_low_real'', jnum (low (estimate (estimateViewModel s)))),
      (''estimate_high_real'', jnum (high (estimate (estimateViewModel s))))]"

definition contactProperties :: "store \<Rightarrow> properties" where
  "contactProperties s =
     [(''contact_first_name_str'', JString (firstName (contactViewModel s))),
      (''contact_last_name_str'', JString (lastName (contactViewModel s))),
      (''contact_email_str'', JString (email (contactViewModel s))),
      (''contact_phone_str'', JString (phone (contactViewModel s))),
      (''contact_desired_timeline_str'', JString (desiredTimeline (contactViewModel s)))]"

definition trackAddressSubmissionSucceeded :: block where
  "trackAddressSubmissionSucceeded s =
     (None, trackEvent ''Address Submission Succeeded''
        (addressProperties s @
         [(''parcel_apn_str'', jstr (details apn s)),
          (''parcel_jurisdiction_str'', jstr (details jurisdiction s))] @
         estimateProperties s) s)"

text \<open>The body of the \<^verbatim>\<open>try\<close> block of \<^verbatim>\<open>submitAddress\<close>.\<close>

definition submitAddress_try :: "services \<Rightarrow> properties \<Rightarrow> block" where
  "submitAddress_try srv options s =
     (if hasParcelDetails (addressViewModel s) \<and> hasResults (estimateViewModel s) \<and>
         isSubmitted (contactViewModel s)
      then fireInBlock SKIP_CONTACT s
      else
        andThen (fetchParcelStep srv)
          (andThen (fetchEstimateStep srv options)
            (andThen (fireInBlock SUCCESS) trackAddressSubmissionSucceeded)) s)"

definition addressErrorMessage :: string where
  "addressErrorMessage =
     ''There was an error processing your address. Please try again, or contact us for help.''"

definition submitAddress_catch :: block where
  "submitAddress_catch s =
     (let s1 = s\<lparr>addressViewModel := (addressViewModel s)\<lparr>errorMessage := addressErrorMessage\<rparr>\<rparr>
      in andThen (fireInBlock ERROR)
           (\<lambda>s2. (None, trackEvent ''Address Submission Failed''
                           [(''error_str'', JString (errorMessage (addressViewModel s2)))] s2))
           s1)"

definition trackAddressSubmitted :: block where
  "trackAddressSubmitted s =
     (None, trackEvent ''Address Submitted''
        [(''address_str'', jstr (selected address s)),
         (''context_str'', jstr (selected match_context s)),
         (''regrid_ll_uuid_str'', jstr (selected ll_uuid s))] s)"

definition submitAddress :: "services \<Rightarrow> properties \<Rightarrow> store \<Rightarrow> js_error + store" where
  "submitAddress srv options s =
     (if flowState s = ''addressFormProcessing'' \<or> flowState s = ''modalAddressFormProcessing''
      then Inr s
      else
        (let s1 = s\<lparr>trace := trace s @ [Blur]\<rparr>;
             s2 = s1\<lparr>addressViewModel := (addressViewModel s1)\<lparr>errorMessage := []\<rparr>\<rparr>
         in leave
              (andThen (fireInBlock SUBMIT_ADDRESS)
                 (andThen trackAddressSubmitted
                    (tryCatch (submitAddress_try srv options) submitAddress_catch)) s2)))"

text \<open>\<^verbatim>\<open>handleSubmit(event, options)\<close> of the address form.\<close>

definition address_handleSubmit :: "services \<Rightarrow> properties \<Rightarrow> store \<Rightarrow> js_error + store" where
  "address_handleSubmit srv options s =
     submitAddress srv options (s\<lparr>trace := trace s @ [PreventDefault, StopPropagation]\<rparr>)"

section \<open>createContactViewModel\<close>

definition analysisSteps :: "string list" where
  "analysisSteps =
     [''Checking flood zones...'',
      ''Checking fire hazard zones...'',
      ''Checking zoning district...'',
      ''Checking lot shape & size...'']"

definition createLeadPayload :: "properties \<Rightarrow> store \<Rightarrow> lead_payload" where
  "createLeadPayload options s =
     \<lparr>leadOptions = options,
      leadFirstName = trim (firstName (contactViewModel s)),
      leadLastName = trim (lastName (contactViewModel s)),
      leadEmail = trim (email (contactViewModel s)),
      leadPhone = trim (phone (contactViewModel s)),
      leadDesiredTimeline = trim (desiredTimeline (contactViewModel s)),
      leadParcel = parcelDetails (addressViewModel s)\<rparr>"

definition contactSubmissionProperties :: "store \<Rightarrow> properties" where
  "contactSubmissionProperties s =
     addressProperties s @
     [(''apn_str'', jstr (details apn s)),
      (''jurisdiction_str'', jstr (details jurisdiction s))] @
     estimateProperties s @ contactProperties s"

definition contactErrorText :: string where
  "contactErrorText =
     ''There was an error processing your info. Please try again, or contact us for help.''"

text \<open>
  \<^verbatim>\<open>sequenceLotAnalysisSteps\<close>: the loop shows each step in turn and waits 1.5 s after
  each. In an uninterrupted run only the steps shown remain.
\<close>

fun sequenceLotAnalysisSteps_loop :: "string list \<Rightarrow> contactViewModel \<Rightarrow> contactViewModel" where
  "sequenceLotAnalysisSteps_loop [] c = c"
| "sequenceLotAnalysisSteps_loop (step # steps) c =
     sequenceLotAnalysisSteps_loop steps (c\<lparr>lotAnalysisStep := step\<rparr>)"

definition sequenceLotAnalysisSteps :: "contactViewModel \<Rightarrow> contactViewModel" where
  "sequenceLotAnalysisSteps c = sequenceLotAnalysisSteps_loop analysisSteps c"

text \<open>What \<^verbatim>\<open>submitContact\<close> does once \<^verbatim>\<open>Promise.all\<close> has resolved.\<close>

definition submitContact_resolved :: block where
  "submitContact_resolved s =
     (let s1 = s\<lparr>contactViewModel := (contactViewModel s)\<lparr>isSubmitted := True\<rparr>\<rparr> in
      andThen (fireInBlock SUCCESS)
        (\<lambda>s2.
           (let s3 = (if hasActiveJurisdiction (estimateViewModel s2) \<and>
                         hasEstimate (estimateViewModel s2)
                      then s2\<lparr>trace := trace s2 @ [LoadCalendly]\<rparr> else s2)
            in (None, trackEvent ''Contact Submission Succeeded''
                        (contactSubmissionProperties s3) s3))) s1)"

definition submitContact_catch :: block where
  "submitContact_catch s =
     (let s1 = s\<lparr>contactViewModel := (contactViewModel s)
                   \<lparr>contactErrorMessage := contactErrorText\<rparr>\<rparr>
      in andThen (fireInBlock ERROR)
           (\<lambda>s2. (None, trackEvent ''Contact Submission Failed''
                           [(''error_str'', JString (contactErrorMessage (contactViewModel s2)))]
                           s2))
           s1)"

text \<open>
  The part of \<^verbatim>\<open>submitContact\<close> that runs before anything is awaited, when the form is
  not processing already: up to the \<^verbatim>\<open>Promise.all\<close>, whose two operations have started
  (the first analysis step is shown, the lead request is out).
\<close>

definition submitContact_start :: "properties \<Rightarrow> block" where
  "submitContact_start options s =
     (let s1 = s\<lparr>trace := trace s @ [Blur]\<rparr>;
          s2 = s1\<lparr>contactViewModel := (contactViewModel s1)\<lparr>contactErrorMessage := []\<rparr>\<rparr>
      in andThen (fireInBlock SUBMIT_CONTACT)
           (\<lambda>s3.
              (let s4 = trackEvent ''Contact Submitted'' (contactSubmissionProperties s3) s3;
                   s5 = s4\<lparr>contactViewModel := (contactViewModel s4)
                             \<lparr>lotAnalysisStep := hd analysisSteps\<rparr>\<rparr>
               in (None, s5\<lparr>trace := trace s5 @ [CreateLead (createLeadPayload options s5)]\<rparr>)))
           s2)"

text \<open>
  \<^verbatim>\<open>submitContact\<close> as one uninterrupted run: the sequence has run out and the lead
  request has been answered when the code after \<^verbatim>\<open>await Promise.all\<close> is reached.
\<close>

definition submitContact_await :: "services \<Rightarrow> properties \<Rightarrow> block" where
  "submitContact_await srv options s =
     (let s1 = s\<lparr>contactViewModel := sequenceLotAnalysisSteps (contactViewModel s)\<rparr>
      in case createLead srv (createLeadPayload options s) of
           Inl error \<Rightarrow> (Some error, s1)
         | Inr _ \<Rightarrow> (None, s1))"

definition submitContact :: "services \<Rightarrow> properties \<Rightarrow> store \<Rightarrow> js_error + store" where
  "submitContact srv options s =
     (if flowState s = ''contactFormProcessing'' then Inr s
      else
        leave
          (andThen (submitContact_start options)
             (tryCatch (andThen (submitContact_await srv options) submitContact_resolved)
                submitContact_catch) s))"

subsection \<open>The two operations of submitContact, one occurrence at a time\<close>

text \<open>
  While \<^verbatim>\<open>submitContact\<close> awaits \<^verbatim>\<open>Promise.all\<close>, two things can happen, in any
  order: a timer of the analysis sequence runs out, and the lead request is answered. A
  submission holds the store, how many timers of the sequence have run out, when the
  running timer was set, the state of the lead request, the state of the handler, and the
  time since the call, in milliseconds.
\<close>

datatype lead_answer = Pending | Resolved | Rejected

datatype handler_state = Awaiting | Returned | Threw js_error

record submission =
  subStore :: store
  timersRun :: nat
  timerSetAt :: nat
  leadAnswer :: lead_answer
  handler :: handler_state
  elapsed :: nat

datatype occurrence = TimerRunsOut nat | LeadAnswered bool nat

text \<open>The submission right after \<^verbatim>\<open>Promise.all\<close> has been called, on the store then.\<close>

definition awaiting :: "store \<Rightarrow> submission" where
  "awaiting s =
     \<lparr>subStore = s, timersRun = 0, timerSetAt = 0, leadAnswer = Pending,
      handler = Awaiting, elapsed = 0\<rparr>"

text \<open>The handler has run a block to its end.\<close>

definition finish :: "js_error option \<times> store \<Rightarrow> submission \<Rightarrow> submission" where
  "finish r c =
     (case r of
        (None, s) \<Rightarrow> c\<lparr>subStore := s, handler := Returned\<rparr>
      | (Some e, s) \<Rightarrow> c\<lparr>subStore := s, handler := Threw e\<rparr>)"

text \<open>
  \<^verbatim>\<open>await Promise.all([sequenceLotAnalysisSteps(this), createLead(createLeadPayload)])\<close>
  inside the \<^verbatim>\<open>try\<close>: the handler goes on to the \<^verbatim>\<open>catch\<close> as soon as the lead
  request is rejected, and to the next statement once the sequence has run out and the lead
  request has resolved.
\<close>

definition promiseAll :: "submission \<Rightarrow> submission" where
  "promiseAll c =
     (if handler c \<noteq> Awaiting then c
      else if leadAnswer c = Rejected then finish (submitContact_catch (subStore c)) c
      else if timersRun c = length analysisSteps \<and> leadAnswer c = Resolved
      then finish (tryCatch submitContact_resolved submitContact_catch (subStore c)) c
      else c)"

text \<open>
  After a timer of \<^verbatim>\<open>sequenceLotAnalysisSteps\<close>: the loop shows the next step and sets the
  next timer, or it is over and the sequence resolves.
\<close>

definition showNextStep :: "submission \<Rightarrow> submission" where
  "showNextStep c =
     (if timersRun c < length analysisSteps
      then c\<lparr>subStore := (subStore c)
               \<lparr>contactViewModel := (contactViewModel (subStore c))
                  \<lparr>lotAnalysisStep := analysisSteps ! timersRun c\<rparr>\<rparr>\<rparr>
      else c)"

text \<open>
  One occurrence, at a time. A timer does not run out before its 1500 ms, the lead request
  is answered once, and time does not go back: otherwise the occurrence cannot happen.
\<close>

fun occur :: "occurrence \<Rightarrow> submission \<Rightarrow> submission option" where
  "occur (TimerRunsOut t) c =
     (if timersRun c < length analysisSteps \<and> timerSetAt c + 1500 \<le> t \<and> elapsed c \<le> t
      then Some (promiseAll
                   (showNextStep (c\<lparr>timersRun := Suc (timersRun c), timerSetAt := t,
                                     elapsed := t\<rparr>)))
      else None)"
| "occur (LeadAnswered ok t) c =
     (if leadAnswer c = Pending \<and> elapsed c \<le> t
      then Some (promiseAll
                   (c\<lparr>leadAnswer := (if ok then Resolved else Rejected), elapsed := t\<rparr>))
      else None)"

fun occurAll :: "occurrence list \<Rightarrow> submission \<Rightarrow> submission option" where
  "occurAll [] c = Some c"
| "occurAll (x # xs) c = (case occur x c of None \<Rightarrow> None | Some c' \<Rightarrow> occurAll xs c')"

text \<open>
  \<^verbatim>\<open>submitContact\<close> from the call on: the submission that awaits, if the handler gets
  that far.
\<close>

definition submitContact_called :: "properties \<Rightarrow> store \<Rightarrow> submission option" where
  "submitContact_called options s =
     (if flowState s = ''contactFormProcessing'' then None
      else (case submitContact_start options s of
              (None, s') \<Rightarrow> Some (awaiting s')
            | (Some e, s') \<Rightarrow> None))"

section \<open>createModalHelpers\<close>

definition isOpen :: "store \<Rightarrow> bool" where
  "isOpen s =
     (flowState s = ''modalAddressForm'' \<or>
      flowState s = ''modalAddressFormProcessing'' \<or>
      flowState s = ''modalAddressFormError'' \<or>
      flowState s = ''contactForm'' \<or>
      flowState s = ''contactFormProcessing'' \<or>
      flowState s = ''contactFormError'' \<or>
      flowState s = ''estimateResults'' \<or>
      flowState s = ''scheduleConsultation'' \<or>
      flowState s = ''requestedCommunity'')"

text \<open>
  Modelled from the spec: the getter \<^verbatim>\<open>hasAnyContactDetails\<close> of the contact view-model,
  which the modal helpers read and whose module is not among the sources. The specification
  says: any contact field is populated.
\<close>

definition hasAnyContactDetails :: "contactViewModel \<Rightarrow> bool" where
  "hasAnyContactDetails c =
     (firstName c \<noteq> [] \<or> lastName c \<noteq> [] \<or> email c \<noteq> [] \<or> phone c \<noteq> [] \<or>
      desiredTimeline c \<noteq> [])"

definition exitQuestion :: string where
  "exitQuestion =
     ''Are you sure you want to stop before you've seen how much your extra lot space could be worth?''"

text \<open>\<^verbatim>\<open>handleModalClose\<close> of the module entry point, with its exit policy.\<close>

definition handleModalClose :: "services \<Rightarrow> store \<Rightarrow> js_error + store" where
  "handleModalClose srv s =
     (let proceedWithExit = True;
          asked = (flowState s = ''contactForm'' \<and> hasAnyContactDetails (contactViewModel s));
          proceedWithExit = (if asked then confirm srv exitQuestion else proceedWithExit);
          s1 = (if asked then s\<lparr>trace := trace s @ [Confirm exitQuestion proceedWithExit]\<rparr>
                else s);
          proceedWithExit =
            (if flowState s1 = ''contactFormProcessing'' then False else proceedWithExit)
      in if proceedWithExit then
           (case fireTransition EXIT s1 of
              Inl e \<Rightarrow> Inl e
            | Inr s2 \<Rightarrow> Inr (trackEvent ''Get Offer Modal Closed'' [] s2))
         else Inr s1)"

text \<open>\<^verbatim>\<open>handleModalClose\<close> of the standalone script \<^verbatim>\<open>index.js\<close>: no policy.\<close>

definition handleModalClose_index :: "store \<Rightarrow> js_error + store" where
  "handleModalClose_index s =
     (case fireTransition EXIT s of
        Inl e \<Rightarrow> Inl e
      | Inr s1 \<Rightarrow> Inr (trackEvent ''Get Offer Modal Closed'' [] s1))"

text \<open>\<^verbatim>\<open>handleModalFlowStart\<close> of \<^verbatim>\<open>index.js\<close>.\<close>

definition handleModalFlowStart :: "store \<Rightarrow> js_error + store" where
  "handleModalFlowStart s =
     (case fireTransition START_MODAL_FLOW s of
        Inl e \<Rightarrow> Inl e
      | Inr s1 \<Rightarrow> Inr (trackEvent ''Modal Get Offer Flow Opened'' [] s1))"

section \<open>Runs of several handlers\<close>

text \<open>One handler after another; an exception that leaves a handler ends the run.\<close>

definition thenRun :: "js_error + store \<Rightarrow> (store \<Rightarrow> js_error + store) \<Rightarrow> js_error + store" where
  "thenRun r h = (case r of Inl e \<Rightarrow> Inl e | Inr s \<Rightarrow> h s)"

text \<open>The stores as \<^verbatim>\<open>initViewModels\<close> and \<^verbatim>\<open>initFlowState\<close> leave them.\<close>

definition initialStore :: store where
  "initialStore =
     flowState_init
       \<lparr>addressViewModel =
          \<lparr>inputValue = [], matches = [], keyboardNavIndex = - 1, selectedMatch = None,
           parcelDetails = None, errorMessage = []\<rparr>,
        contactViewModel =
          \<lparr>firstName = [], lastName = [], email = [], phone = [], desiredTimeline = [],
           contactErrorMessage = [], isSubmitted = False, lotAnalysisStep = ''Checking...''\<rparr>,
        estimateViewModel =
          estimateViewModel_init
            \<lparr>estimateJurisdiction = \<lparr>status = Some []\<rparr>,
             estimate = \<lparr>low = None, high = None\<rparr>\<rparr>,
        flowState = [],
        trace = []\<rparr>"

text \<open>The store after \<^verbatim>\<open>event.preventDefault()\<close> and \<^verbatim>\<open>event.stopPropagation()\<close>.\<close>

definition intercepted :: "store \<Rightarrow> store" where
  "intercepted s = s\<lparr>trace := trace s @ [PreventDefault, StopPropagation]\<rparr>"

definition withKeyboardNavIndex :: "int \<Rightarrow> store \<Rightarrow> store" where
  "withKeyboardNavIndex i s =
     s\<lparr>addressViewModel := (addressViewModel s)\<lparr>keyboardNavIndex := i\<rparr>\<rparr>"

text \<open>
  Services for examples: the typeahead answers with \<open>n\<close> matches at house numbers
  \<open>1\<close> to \<open>n\<close> of one street; the other services fail.
\<close>

definition streetMatches :: "nat \<Rightarrow> match list" where
  "streetMatches n =
     map (\<lambda>k. \<lparr>address = Some (replicate (Suc k) CHR ''1'' @ '' Oak St''),
               match_context = Some ''Davis, CA'',
               ll_uuid = Some (replicate (Suc k) CHR ''u''),
               score = 1\<rparr>) [0..<n]"

definition streetServices :: "nat \<Rightarrow> services" where
  "streetServices n =
     \<lparr>typeahead = (\<lambda>query. Inr (streetMatches n)),
      parcelLookup = (\<lambda>ident. Inl NetworkError),
      getEstimate = (\<lambda>payload. Inl NetworkError),
      postLead = (\<lambda>payload. Inl NetworkError),
      confirm = (\<lambda>question. False)\<rparr>"

text \<open>What a run leaves of the keyboard index and of the number of matches.\<close>

definition navIndexOf :: "js_error + store \<Rightarrow> int option" where
  "navIndexOf r =
     (case r of Inl e \<Rightarrow> None | Inr s \<Rightarrow> Some (keyboardNavIndex (addressViewModel s)))"

definition matchCountOf :: "js_error + store \<Rightarrow> nat option" where
  "matchCountOf r =
     (case r of Inl e \<Rightarrow> None | Inr s \<Rightarrow> Some (length (matches (addressViewModel s))))"

text \<open>
  A run that leaves a stale index: five matches are shown, ArrowUp highlights the last one,
  then the input changes and only two matches are left.
\<close>

definition staleIndexRun :: "js_error + store" where
  "staleIndexRun =
     thenRun
       (thenRun (handleInput (streetServices 5) initialStore) (handleKeydown ''ArrowUp''))
       (handleInput (streetServices 2))"

text \<open>
  The state that the table leads to from a state under an event, and the state itself where
  the table defines no transition.
\<close>

definition afterEvent :: "string \<Rightarrow> string \<Rightarrow> string" where
  "afterEvent st event = (case defined_transition st event of None \<Rightarrow> st | Some t \<Rightarrow> t)"

text \<open>The states in which the table defines \<open>SUBMIT_ADDRESS\<close>.\<close>

definition addressFormStates :: "string set" where
  "addressFormStates =
     {''default'', ''addressFormError'', ''modalAddressForm'', ''modalAddressFormError''}"

text \<open>Example answers of the services, and stores at three moments of a session.\<close>

definition exampleFields :: regrid_fields where
  "exampleFields =
     \<lparr>parcelnumb = Some ''070-0123-004'', county = Some ''yolo'',
      fields_address = Some ''1 Oak St'', scity = Some ''Davis'', state2 = Some ''CA'',
      szip = Some ''95616''\<rparr>"

definition exampleParcel :: parcel where
  "exampleParcel =
     \<lparr>apn = Some ''070-0123-004'', jurisdiction = Some ''yolo'',
      parcel_address = Some ''1 Oak St'', city = Some ''Davis'', state = Some ''CA'',
      zip = Some ''95616''\<rparr>"

definition exampleEstimate :: estimate_results where
  "exampleEstimate =
     \<lparr>resultsJurisdiction = \<lparr>status = Some ''active''\<rparr>,
      resultsEstimate = \<lparr>low = Some 150000, high = Some 250000\<rparr>\<rparr>"

definition exampleServices :: services where
  "exampleServices =
     \<lparr>typeahead = (\<lambda>query. Inr (streetMatches 3)),
      parcelLookup = (\<lambda>ident. Inr [exampleFields]),
      getEstimate = (\<lambda>payload. Inr exampleEstimate),
      postLead = (\<lambda>payload. Inr ()),
      confirm = (\<lambda>question. True)\<rparr>"

definition exampleMatch :: match where
  "exampleMatch =
     \<lparr>address = Some ''1 Oak St'', match_context = Some ''Davis, CA'', ll_uuid = Some ''u'',
      score = 1\<rparr>"

text \<open>An address has been selected; nothing has been submitted.\<close>

definition selectedStore :: store where
  "selectedStore = handleMatchSelection exampleMatch initialStore"

text \<open>Parcel details, estimate and contact are there, and the flow is back at the start.\<close>

definition submittedStore :: store where
  "submittedStore =
     selectedStore
       \<lparr>addressViewModel := (addressViewModel selectedStore)\<lparr>parcelDetails := Some exampleParcel\<rparr>,
        estimateViewModel :=
          \<lparr>estimateJurisdiction = resultsJurisdiction exampleEstimate,
           estimate = resultsEstimate exampleEstimate\<rparr>,
        contactViewModel := (contactViewModel selectedStore)
          \<lparr>firstName := ''Ada'', email := ''ada@example.org'', isSubmitted := True\<rparr>\<rparr>"

text \<open>The contact form is open and partly filled in.\<close>

definition contactFormStore :: store where
  "contactFormStore =
     submittedStore
       \<lparr>contactViewModel := (contactViewModel submittedStore)\<lparr>isSubmitted := False\<rparr>,
        flowState := ''contactForm''\<rparr>"

text \<open>Three matches are shown and none is highlighted.\<close>

definition threeMatchesStore :: store where
  "threeMatchesStore =
     initialStore\<lparr>addressViewModel := (addressViewModel initialStore)
                    \<lparr>matches := streetMatches 3\<rparr>\<rparr>"





section \<open>The transition table and the reference graph\<close>

lemmas fragment_defs = submitAddressTransition_def modalSubmitAddressTransition_def
  submitContactTransition_def exitTransition_def

lemma defined_transition_map_of:
  "defined_transition s e = map_of (map (\<lambda>(s, e, t). ((s, e), t)) reference_graph) (s, e)"
  unfolding defined_transition_def states_def reference_graph_def fragment_defs
  by (simp add: map_add_def)

lemma reference_graph_distinct:
  "distinct (map fst (map (\<lambda>(s, e, t). ((s, e), t)) reference_graph))"
  unfolding reference_graph_def by simp

lemma defined_transition_iff:
  "(defined_transition s e = Some t) = ((s, e, t) \<in> set reference_graph)"
proof -
  have "(defined_transition s e = Some t) =
        (((s, e), t) \<in> set (map (\<lambda>(s, e, t). ((s, e), t)) reference_graph))"
    unfolding defined_transition_map_of
    using map_of_eq_Some_iff [OF reference_graph_distinct] by blast
  also have "\<dots> = ((s, e, t) \<in> set reference_graph)"
    by force
  finally show ?thesis .
qed

lemma transition_defined:
  "defined_transition s e = Some t \<Longrightarrow> transition s e = Inr (Some t, [])"
  by (auto simp: defined_transition_def transition_def getProperty_def split: option.splits)

lemma states_dom:
  "(states s \<noteq> None) =
     (s \<in> {''default'', ''addressFormProcessing'', ''addressFormError'', ''modalAddressForm'',
            ''modalAddressFormProcessing'', ''modalAddressFormError'', ''contactForm'',
            ''contactFormProcessing'', ''contactFormError'', ''estimateResults'',
            ''scheduleConsultation'', ''requestedCommunity''})"
  unfolding states_def by simp

text \<open>
  Claim C2. The transition table realizes exactly the reference state graph: a transition
  is defined for a state and an event, with a target, exactly when the graph lists that edge;
  on every listed edge \<open>transition\<close> returns the listed target (and emits nothing); the
  initial state is \<open>default\<close>; wherever \<open>EXIT\<close> is defined it leads to \<open>default\<close>, and
  \<open>default\<close> itself has no \<open>EXIT\<close>.
\<close>

theorem transition_table_is_reference_graph:
  "(\<forall>s e t. (defined_transition s e = Some t) = ((s, e, t) \<in> set reference_graph)) \<and>
   (\<forall>(s, e, t) \<in> set reference_graph. transition s e = Inr (Some t, [])) \<and>
   defaultState = ''default'' \<and>
   (\<forall>s t. defined_transition s ''EXIT'' = Some t \<longrightarrow> t = ''default'') \<and>
   defined_transition ''default'' ''EXIT'' = None"
proof (intro conjI allI impI)
  fix s e t
  show "(defined_transition s e = Some t) = ((s, e, t) \<in> set reference_graph)"
    by (rule defined_transition_iff)
next
  show "\<forall>(s, e, t) \<in> set reference_graph. transition s e = Inr (Some t, [])"
    using defined_transition_iff transition_defined by blast
next
  show "defaultState = ''default''" by (simp add: defaultState_def)
next
  fix s t
  assume "defined_transition s ''EXIT'' = Some t"
  then have "(s, ''EXIT'', t) \<in> set reference_graph"
    by (simp add: defined_transition_iff)
  then show "t = ''default''"
    unfolding reference_graph_def by auto
next
  show "defined_transition ''default'' ''EXIT'' = None"
    unfolding defined_transition_map_of reference_graph_def by simp
qed

theorem transition_table_is_reference_graph_witness:
  "defined_transition ''estimateResults'' ''SCHEDULE'' = Some ''scheduleConsultation'' \<and>
   transition ''estimateResults'' ''SCHEDULE'' = Inr (Some ''scheduleConsultation'', []) \<and>
   transition ''default'' ''SUBMIT_ADDRESS'' = Inr (Some ''addressFormProcessing'', []) \<and>
   transition ''addressFormProcessing'' ''SUCCESS'' = Inr (Some ''contactForm'', []) \<and>
   defined_transition ''contactFormProcessing'' ''EXIT'' = Some ''default''"
proof -
  have 1: "(''estimateResults'', ''SCHEDULE'', ''scheduleConsultation'') \<in> set reference_graph"
    and 2: "(''default'', ''SUBMIT_ADDRESS'', ''addressFormProcessing'') \<in> set reference_graph"
    and 3: "(''addressFormProcessing'', ''SUCCESS'', ''contactForm'') \<in> set reference_graph"
    and 4: "(''contactFormProcessing'', ''EXIT'', ''default'') \<in> set reference_graph"
    unfolding reference_graph_def by simp_all
  from transition_table_is_reference_graph 1 2 3 4 show ?thesis
    by blast
qed

text \<open>
  What \<open>transition\<close> does where the table defines no transition. For a state that the
  table does not have it throws. For a state of the table and an event that the state does
  not define, it returns the state unchanged together with exactly one diagnostic record,
  which holds the state and the event, unless the event is the name of a member that every
  object inherits: then it returns \<^verbatim>\<open>undefined\<close> and emits nothing.
\<close>

lemma transition_outside_table:
  "(states currentState = None \<longrightarrow> transition currentState event = Inl TypeError) \<and>
   (\<forall>d. states currentState = Some d \<and> transitions d event = None \<and>
        event \<notin> set objectPrototypeMembers \<longrightarrow>
      transition currentState event =
        Inr (Some currentState,
             [(''Invalid State Transition Triggered'',
               [(''current_state_str'', JString currentState),
                (''event_str'', JString event)])])) \<and>
   (\<forall>d. states currentState = Some d \<and> transitions d event = None \<and>
        event \<in> set objectPrototypeMembers \<longrightarrow>
      transition currentState event = Inr (None, []))"
  by (simp add: transition_def getProperty_def)

text \<open>
  Claim C1. For every state of the table and every event with no transition defined for that
  state, \<open>transition\<close> is to return the state unchanged and emit exactly one diagnostic
  record. The code does not, for an event with the name of an inherited member: \<open>contactForm\<close>
  is a state of the table and defines no transition for \<open>constructor\<close>, and there
  \<open>transition\<close> returns \<^verbatim>\<open>undefined\<close> and emits no record, where it does both for an event
  such as \<open>SCHEDULE\<close>. A state that the table does not have makes the call throw, as the
  claim says.
\<close>

theorem transition_inherited_event:
  "states ''contactForm'' \<noteq> None \<and>
   defined_transition ''contactForm'' ''constructor'' = None \<and>
   transition ''contactForm'' ''constructor'' = Inr (None, []) \<and>
   defined_transition ''contactForm'' ''SCHEDULE'' = None \<and>
   transition ''contactForm'' ''SCHEDULE'' =
     Inr (Some ''contactForm'',
          [(''Invalid State Transition Triggered'',
            [(''current_state_str'', JString ''contactForm''),
             (''event_str'', JString ''SCHEDULE'')])]) \<and>
   transition ''checkout'' ''EXIT'' = Inl TypeError"
  by (simp add: transition_def defined_transition_def getProperty_def states_def
      fragment_defs objectPrototypeMembers_def)

section \<open>The typeahead matches are filtered, sorted and cut\<close>

lemma set_insort_cmp: "set (insort_cmp cmp x xs) = insert x (set xs)"
  by (induction xs) auto

lemma set_js_sort: "set (js_sort cmp xs) = set xs"
  unfolding js_sort_def by (induction xs) (simp_all add: set_insort_cmp)

lemma length_insort_cmp: "length (insort_cmp cmp x xs) = Suc (length xs)"
  by (induction xs) auto

lemma length_js_sort: "length (js_sort cmp xs) = length xs"
  unfolding js_sort_def by (induction xs) (simp_all add: length_insort_cmp)

lemma compareMatchesScores_le: "(compareMatchesScores a b \<le> 0) = (score b \<le> score a)"
  by (simp add: compareMatchesScores_def)

lemma sorted_insort_scores:
  "sorted_wrt (\<lambda>a b. score b \<le> score a) xs \<Longrightarrow>
   sorted_wrt (\<lambda>a b. score b \<le> score a) (insort_cmp compareMatchesScores x xs)"
proof (induction xs)
  case Nil
  show ?case by simp
next
  case (Cons y ys)
  show ?case
  proof (cases "score y \<le> score x")
    case True
    with Cons.prems show ?thesis
      by (auto simp: compareMatchesScores_le)
  next
    case False
    with Cons show ?thesis
      by (auto simp: compareMatchesScores_le set_insort_cmp)
  qed
qed

lemma sorted_js_sort_scores:
  "sorted_wrt (\<lambda>a b. score b \<le> score a) (js_sort compareMatchesScores xs)"
proof (induction xs)
  case Nil
  show ?case by (simp add: js_sort_def)
next
  case (Cons x xs)
  then show ?case
    using sorted_insort_scores [of "js_sort compareMatchesScores xs" x]
    by (simp add: js_sort_def)
qed

lemma sorted_wrt_take: "sorted_wrt P xs \<Longrightarrow> sorted_wrt P (take n xs)"
proof (induction xs arbitrary: n)
  case Nil
  show ?case by simp
next
  case (Cons x xs)
  show ?case
  proof (cases n)
    case 0
    then show ?thesis by simp
  next
    case (Suc k)
    with Cons show ?thesis
      by (auto dest: in_set_takeD)
  qed
qed

lemma address_pattern_ends:
  "address_pattern a \<Longrightarrow> a \<noteq> [] \<and> is_digit (hd a) \<and> \<not> is_digit (last a)"
  by (auto simp: address_pattern_def split: list.splits)

lemma keepMatch_fields:
  assumes "keepMatch m"
  shows "\<exists>u a. ll_uuid m = Some u \<and> u \<noteq> [] \<and> address m = Some a \<and> a \<noteq> [] \<and>
               is_digit (hd a) \<and> \<not> is_digit (last a)"
  using assms address_pattern_ends
  by (auto simp: keepMatch_def truthy_def split: option.splits)

lemma set_filterSortAndSlice:
  "set (filterSortAndSliceAddressMatches ms) \<subseteq> {m \<in> set ms. keepMatch m}"
  unfolding filterSortAndSliceAddressMatches_def Let_def
  using set_take_subset [of 10 "js_sort compareMatchesScores (filter keepMatch ms)"]
  by (auto simp: set_js_sort)

text \<open>
  Claim C10. For every typeahead response list, the processed match list has at most 10
  entries; every retained entry has a non-empty \<open>ll_uuid\<close> and an address that starts
  with a digit and does not end with a digit; and the retained entries are in non-increasing
  order of score.
\<close>

theorem filterSortAndSliceAddressMatches_result:
  "length (filterSortAndSliceAddressMatches ms) \<le> 10 \<and>
   (\<forall>m \<in> set (filterSortAndSliceAddressMatches ms).
      \<exists>u a. ll_uuid m = Some u \<and> u \<noteq> [] \<and> address m = Some a \<and>
            is_digit (hd a) \<and> \<not> is_digit (last a) \<and> a \<noteq> []) \<and>
   sorted_wrt (\<lambda>a b. score a \<ge> score b) (filterSortAndSliceAddressMatches ms)"
proof (intro conjI ballI)
  show "length (filterSortAndSliceAddressMatches ms) \<le> 10"
    by (simp add: filterSortAndSliceAddressMatches_def)
next
  fix m
  assume "m \<in> set (filterSortAndSliceAddressMatches ms)"
  then have "keepMatch m"
    using set_filterSortAndSlice by blast
  then show "\<exists>u a. ll_uuid m = Some u \<and> u \<noteq> [] \<and> address m = Some a \<and>
            is_digit (hd a) \<and> \<not> is_digit (last a) \<and> a \<noteq> []"
    using keepMatch_fields by blast
next
  show "sorted_wrt (\<lambda>a b. score a \<ge> score b) (filterSortAndSliceAddressMatches ms)"
    unfolding filterSortAndSliceAddressMatches_def Let_def
    by (rule sorted_wrt_take) (rule sorted_js_sort_scores)
qed

theorem filterSortAndSliceAddressMatches_result_witness:
  "length (filterSortAndSliceAddressMatches
     [\<lparr>address = Some ''12 Oak St'', match_context = Some ''Davis, CA'',
         ll_uuid = Some ''u1'', score = 3\<rparr>,
      \<lparr>address = Some ''12 Oak St 95616'', match_context = Some ''Davis, CA'',
         ll_uuid = Some ''u2'', score = 9\<rparr>,
      \<lparr>address = Some ''7 Elm Ave'', match_context = None,
         ll_uuid = Some ''u3'', score = 5\<rparr>]) \<le> 10 \<and>
   filterSortAndSliceAddressMatches
     [\<lparr>address = Some ''12 Oak St'', match_context = Some ''Davis, CA'',
         ll_uuid = Some ''u1'', score = 3\<rparr>,
      \<lparr>address = Some ''12 Oak St 95616'', match_context = Some ''Davis, CA'',
         ll_uuid = Some ''u2'', score = 9\<rparr>,
      \<lparr>address = Some ''7 Elm Ave'', match_context = None,
         ll_uuid = Some ''u3'', score = 5\<rparr>] =
     [\<lparr>address = Some ''7 Elm Ave'', match_context = None,
         ll_uuid = Some ''u3'', score = 5\<rparr>,
      \<lparr>address = Some ''12 Oak St'', match_context = Some ''Davis, CA'',
         ll_uuid = Some ''u1'', score = 3\<rparr>]"
proof (rule conjI)
  show "length (filterSortAndSliceAddressMatches
     [\<lparr>address = Some ''12 Oak St'', match_context = Some ''Davis, CA'',
         ll_uuid = Some ''u1'', score = 3\<rparr>,
      \<lparr>address = Some ''12 Oak St 95616'', match_context = Some ''Davis, CA'',
         ll_uuid = Some ''u2'', score = 9\<rparr>,
      \<lparr>address = Some ''7 Elm Ave'', match_context = None,
         ll_uuid = Some ''u3'', score = 5\<rparr>]) \<le> 10"
    using filterSortAndSliceAddressMatches_result by blast
next
  show "filterSortAndSliceAddressMatches
     [\<lparr>address = Some ''12 Oak St'', match_context = Some ''Davis, CA'',
         ll_uuid = Some ''u1'', score = 3\<rparr>,
      \<lparr>address = Some ''12 Oak St 95616'', match_context = Some ''Davis, CA'',
         ll_uuid = Some ''u2'', score = 9\<rparr>,
      \<lparr>address = Some ''7 Elm Ave'', match_context = None,
         ll_uuid = Some ''u3'', score = 5\<rparr>] =
     [\<lparr>address = Some ''7 Elm Ave'', match_context = None,
         ll_uuid = Some ''u3'', score = 5\<rparr>,
      \<lparr>address = Some ''12 Oak St'', match_context = Some ''Davis, CA'',
         ll_uuid = Some ''u1'', score = 3\<rparr>]"
    by (simp add: filterSortAndSliceAddressMatches_def keepMatch_def truthy_def
        address_pattern_def is_digit_def is_line_terminator_def js_sort_def
        compareMatchesScores_def)
qed

section \<open>Firing events from the handlers\<close>

lemma eventName_not_inherited: "eventName event \<notin> set objectPrototypeMembers"
  by (cases event) (simp_all add: objectPrototypeMembers_def)

lemma transition_flow_event:
  "transition st (eventName event) \<noteq> Inr (None, tracked)"
  using eventName_not_inherited [of event]
  by (auto simp: transition_def getProperty_def split: option.splits)

lemma fireTransition_known:
  "states (flowState s) \<noteq> None \<Longrightarrow> \<exists>s'. fireTransition event s = Inr s'"
  using eventName_not_inherited [of event]
  by (auto simp: fireTransition_def transition_def getProperty_def split: option.splits)

lemma fireTransition_fields:
  "fireTransition event s = Inr s' \<Longrightarrow>
     addressViewModel s' = addressViewModel s \<and> contactViewModel s' = contactViewModel s \<and>
     estimateViewModel s' = estimateViewModel s"
  by (auto simp: fireTransition_def split: sum.splits prod.splits option.splits)

lemma transition_from_address_forms:
  "transition ''default'' ''SUBMIT_ADDRESS'' = Inr (Some ''addressFormProcessing'', [])"
  "transition ''addressFormError'' ''SUBMIT_ADDRESS'' = Inr (Some ''addressFormProcessing'', [])"
  "transition ''modalAddressForm'' ''SUBMIT_ADDRESS'' = Inr (Some ''modalAddressFormProcessing'', [])"
  "transition ''modalAddressFormError'' ''SUBMIT_ADDRESS'' =
     Inr (Some ''modalAddressFormProcessing'', [])"
  by (simp_all add: transition_def getProperty_def states_def fragment_defs)

lemma transition_from_address_processing:
  "transition ''addressFormProcessing'' ''SKIP_CONTACT'' = Inr (Some ''estimateResults'', [])"
  "transition ''addressFormProcessing'' ''SUCCESS'' = Inr (Some ''contactForm'', [])"
  "transition ''addressFormProcessing'' ''ERROR'' = Inr (Some ''addressFormError'', [])"
  "transition ''modalAddressFormProcessing'' ''SKIP_CONTACT'' = Inr (Some ''estimateResults'', [])"
  "transition ''modalAddressFormProcessing'' ''SUCCESS'' = Inr (Some ''contactForm'', [])"
  "transition ''modalAddressFormProcessing'' ''ERROR'' = Inr (Some ''modalAddressFormError'', [])"
  by (simp_all add: transition_def getProperty_def states_def fragment_defs)

lemma defined_from_address_forms:
  "defined_transition ''default'' ''SUBMIT_ADDRESS'' = Some ''addressFormProcessing''"
  "defined_transition ''addressFormError'' ''SUBMIT_ADDRESS'' = Some ''addressFormProcessing''"
  "defined_transition ''modalAddressForm'' ''SUBMIT_ADDRESS'' =
     Some ''modalAddressFormProcessing''"
  "defined_transition ''modalAddressFormError'' ''SUBMIT_ADDRESS'' =
     Some ''modalAddressFormProcessing''"
  "defined_transition ''addressFormProcessing'' ''ERROR'' = Some ''addressFormError''"
  "defined_transition ''modalAddressFormProcessing'' ''ERROR'' = Some ''modalAddressFormError''"
  by (simp_all add: defined_transition_def states_def fragment_defs)

lemma transition_EXIT_modal:
  "transition ''modalAddressForm'' ''EXIT'' = Inr (Some ''default'', [])"
  "transition ''modalAddressFormProcessing'' ''EXIT'' = Inr (Some ''default'', [])"
  "transition ''modalAddressFormError'' ''EXIT'' = Inr (Some ''default'', [])"
  "transition ''contactForm'' ''EXIT'' = Inr (Some ''default'', [])"
  "transition ''contactFormProcessing'' ''EXIT'' = Inr (Some ''default'', [])"
  "transition ''contactFormError'' ''EXIT'' = Inr (Some ''default'', [])"
  "transition ''estimateResults'' ''EXIT'' = Inr (Some ''default'', [])"
  "transition ''scheduleConsultation'' ''EXIT'' = Inr (Some ''default'', [])"
  "transition ''requestedCommunity'' ''EXIT'' = Inr (Some ''default'', [])"
  by (simp_all add: transition_def getProperty_def states_def fragment_defs)

lemma fireTransition_EXIT_open:
  assumes "isOpen s"
  shows "fireTransition EXIT s =
     Inr (s\<lparr>flowState := ''default'', trace := trace s @ [Transition (flowState s) ''EXIT'']\<rparr>)"
  using assms unfolding isOpen_def fireTransition_def
  by (elim disjE) (simp_all add: transition_EXIT_modal)

section \<open>Keyboard navigation in the match list\<close>

text \<open>
  Claim C7, as amended. \<open>handleKeydown\<close> intercepts only ArrowUp, ArrowDown and Enter, and
  only while no match is selected and the match list is not empty; any other key, and any
  key while a match is selected or the list is empty, leaves the store as it is. Under those
  conditions, for a list of \<open>n\<close> matches, ArrowUp from index \<open>-1\<close> (or below) sets the index to
  \<open>n - 1\<close> and otherwise decrements it by one; ArrowDown from index \<open>n - 1\<close> or from any
  larger index sets the index to \<open>-1\<close> and otherwise increments it by one; Enter with an
  index from \<open>0\<close> to \<open>n - 1\<close> selects the match at that index, and Enter with index \<open>-1\<close>
  is intercepted and changes nothing else.
\<close>

theorem handleKeydown_navigation:
  "(key \<noteq> ''Enter'' \<and> key \<noteq> ''ArrowUp'' \<and> key \<noteq> ''ArrowDown'' \<or>
    isSelected (addressViewModel s) \<or> matches (addressViewModel s) = []
      \<longrightarrow> handleKeydown key s = Inr s) \<and>
   (\<not> isSelected (addressViewModel s) \<and> matches (addressViewModel s) \<noteq> [] \<longrightarrow>
      handleKeydown ''ArrowUp'' s =
        Inr (withKeyboardNavIndex
               (if keyboardNavIndex (addressViewModel s) \<le> - 1
                then int (length (matches (addressViewModel s))) - 1
                else keyboardNavIndex (addressViewModel s) - 1) (intercepted s)) \<and>
      handleKeydown ''ArrowDown'' s =
        Inr (withKeyboardNavIndex
               (if keyboardNavIndex (addressViewModel s) \<ge>
                     int (length (matches (addressViewModel s))) - 1
                then - 1
                else keyboardNavIndex (addressViewModel s) + 1) (intercepted s)) \<and>
      (0 \<le> keyboardNavIndex (addressViewModel s) \<and>
       keyboardNavIndex (addressViewModel s) < int (length (matches (addressViewModel s))) \<longrightarrow>
         handleKeydown ''Enter'' s =
           Inr (handleMatchSelection
                  (matches (addressViewModel s) ! nat (keyboardNavIndex (addressViewModel s)))
                  (intercepted s))) \<and>
      (keyboardNavIndex (addressViewModel s) = - 1 \<longrightarrow>
         handleKeydown ''Enter'' s = Inr (intercepted s)))"
  by (auto simp: handleKeydown_def Let_def intercepted_def withKeyboardNavIndex_def)

theorem handleKeydown_navigation_witness:
  "handleKeydown ''ArrowUp'' threeMatchesStore =
     Inr (withKeyboardNavIndex 2 (intercepted threeMatchesStore)) \<and>
   handleKeydown ''ArrowDown'' (withKeyboardNavIndex 2 threeMatchesStore) =
     Inr (withKeyboardNavIndex (- 1) (intercepted (withKeyboardNavIndex 2 threeMatchesStore))) \<and>
   handleKeydown ''Enter'' (withKeyboardNavIndex 2 threeMatchesStore) =
     Inr (handleMatchSelection (streetMatches 3 ! 2)
            (intercepted (withKeyboardNavIndex 2 threeMatchesStore))) \<and>
   handleKeydown ''Tab'' threeMatchesStore = Inr threeMatchesStore"
proof -
  have a: "\<not> isSelected (addressViewModel threeMatchesStore)"
    "matches (addressViewModel threeMatchesStore) \<noteq> []"
    "keyboardNavIndex (addressViewModel threeMatchesStore) = - 1"
    "length (matches (addressViewModel threeMatchesStore)) = 3"
    by code_simp+
  have b: "\<not> isSelected (addressViewModel (withKeyboardNavIndex 2 threeMatchesStore))"
    "matches (addressViewModel (withKeyboardNavIndex 2 threeMatchesStore)) = streetMatches 3"
    "streetMatches 3 \<noteq> []"
    "keyboardNavIndex (addressViewModel (withKeyboardNavIndex 2 threeMatchesStore)) = 2"
    "length (streetMatches 3) = 3"
    by code_simp+
  have up: "handleKeydown ''ArrowUp'' threeMatchesStore =
     Inr (withKeyboardNavIndex 2 (intercepted threeMatchesStore))"
    using handleKeydown_navigation [where key = "''ArrowUp''" and s = threeMatchesStore] a by simp
  have down: "handleKeydown ''ArrowDown'' (withKeyboardNavIndex 2 threeMatchesStore) =
     Inr (withKeyboardNavIndex (- 1) (intercepted (withKeyboardNavIndex 2 threeMatchesStore)))"
    using handleKeydown_navigation
            [where key = "''ArrowDown''" and s = "withKeyboardNavIndex 2 threeMatchesStore"] b
    by simp
  have enter: "handleKeydown ''Enter'' (withKeyboardNavIndex 2 threeMatchesStore) =
     Inr (handleMatchSelection (streetMatches 3 ! 2)
            (intercepted (withKeyboardNavIndex 2 threeMatchesStore)))"
    using handleKeydown_navigation
            [where key = "''Enter''" and s = "withKeyboardNavIndex 2 threeMatchesStore"] b
    by simp
  have tab: "handleKeydown ''Tab'' threeMatchesStore = Inr threeMatchesStore"
    using handleKeydown_navigation [where key = "''Tab''" and s = threeMatchesStore] by simp
  from up down enter tab show ?thesis by simp
qed

text \<open>
  The claim as it was stated lets ArrowDown increment every index but \<open>n - 1\<close>, and lets
  Enter select the match at every index but \<open>-1\<close>. The index is not reset when the match
  list changes, so it can lie beyond the list: after this run the index is 4 among 2
  matches, ArrowDown takes it to \<open>-1\<close>, not to 5, and Enter throws.
\<close>

theorem handleKeydown_stale_index_counterexample:
  "navIndexOf staleIndexRun = Some 4 \<and>
   matchCountOf staleIndexRun = Some 2 \<and>
   navIndexOf (thenRun staleIndexRun (handleKeydown ''ArrowDown'')) = Some (- 1) \<and>
   navIndexOf (thenRun staleIndexRun (handleKeydown ''ArrowDown'')) \<noteq> Some (4 + 1) \<and>
   thenRun staleIndexRun (handleKeydown ''Enter'') = Inl TypeError"
  by code_simp


lemma handleMatchSelection_selected:
  "selectedMatch (addressViewModel (handleMatchSelection m s)) = Some m \<and>
   matches (addressViewModel (handleMatchSelection m s)) = [] \<and>
   keyboardNavIndex (addressViewModel (handleMatchSelection m s)) = - 1"
  by (simp add: handleMatchSelection_def trackEvent_def)

text \<open>The index never falls below \<open>-1\<close>.\<close>

lemma handleKeydown_index_bound:
  assumes "handleKeydown key s = Inr s'" and "- 1 \<le> keyboardNavIndex (addressViewModel s)"
  shows "- 1 \<le> keyboardNavIndex (addressViewModel s')"
  using assms
  by (auto simp: handleKeydown_def Let_def handleMatchSelection_def trackEvent_def
      split: if_splits)

section \<open>A change of the address input invalidates what depends on it\<close>

lemma handleInput_cleared:
  assumes "handleInput srv s = Inr s'"
  shows "\<not> isSelected (addressViewModel s') \<and> \<not> hasParcelDetails (addressViewModel s') \<and>
         \<not> hasResults (estimateViewModel s') \<and> \<not> isSubmitted (contactViewModel s')"
proof (cases "fetchAddressMatches srv (inputValue (addressViewModel s))")
  case (Inr found)
  with assms show ?thesis
    by (auto simp: handleInput_def Let_def isSelected_def hasParcelDetails_def hasResults_def
        estimateViewModel_init_def truthy_def split: if_splits)
next
  case (Inl e)
  with assms obtain s1 where
    f: "fireTransition ERROR s1 = Inr s'" and
    c: "\<not> isSelected (addressViewModel s1) \<and> \<not> hasParcelDetails (addressViewModel s1) \<and>
        \<not> hasResults (estimateViewModel s1) \<and> \<not> isSubmitted (contactViewModel s1)"
    by (auto simp: handleInput_def Let_def isSelected_def hasParcelDetails_def hasResults_def
        estimateViewModel_init_def truthy_def split: if_splits)
  from fireTransition_fields [OF f] c show ?thesis by simp
qed

lemma handleInput_returns:
  assumes "states (flowState s) \<noteq> None"
  shows "\<exists>s'. handleInput srv s = Inr s'"
proof (cases "fetchAddressMatches srv (inputValue (addressViewModel s))")
  case (Inr found)
  then show ?thesis
    by (simp add: handleInput_def Let_def)
next
  case (Inl e)
  then show ?thesis
    using assms
    by (simp add: handleInput_def Let_def fireTransition_known)
qed

text \<open>
  Claim C8. For every match, \<open>handleMatchSelection\<close> followed by \<open>handleInput\<close> leaves
  \<open>isSelected\<close> and \<open>hasParcelDetails\<close> false, and the estimate results and the
  contact-submitted flag reset as well; and \<open>handleInput\<close> does return, whenever the flow
  state is a state of the table.
\<close>

theorem selection_then_input_invalidates:
  "(\<forall>s'. handleInput srv (handleMatchSelection m s) = Inr s' \<longrightarrow>
      \<not> isSelected (addressViewModel s') \<and> \<not> hasParcelDetails (addressViewModel s') \<and>
      \<not> hasResults (estimateViewModel s') \<and> \<not> isSubmitted (contactViewModel s')) \<and>
   (states (flowState s) \<noteq> None \<longrightarrow>
      (\<exists>s'. handleInput srv (handleMatchSelection m s) = Inr s'))"
proof -
  have cleared: "\<forall>s'. handleInput srv (handleMatchSelection m s) = Inr s' \<longrightarrow>
      \<not> isSelected (addressViewModel s') \<and> \<not> hasParcelDetails (addressViewModel s') \<and>
      \<not> hasResults (estimateViewModel s') \<and> \<not> isSubmitted (contactViewModel s')"
    using handleInput_cleared by blast
  have returns: "\<exists>s'. handleInput srv (handleMatchSelection m s) = Inr s'"
    if "states (flowState s) \<noteq> None"
  proof -
    from that have "states (flowState (handleMatchSelection m s)) \<noteq> None"
      by (simp add: handleMatchSelection_def trackEvent_def)
    then show ?thesis
      by (rule handleInput_returns)
  qed
  from cleared returns show ?thesis
    by blast
qed

theorem selection_then_input_invalidates_witness:
  "\<exists>s'. handleInput exampleServices (handleMatchSelection exampleMatch submittedStore) = Inr s' \<and>
      \<not> isSelected (addressViewModel s') \<and> \<not> hasParcelDetails (addressViewModel s') \<and>
      \<not> hasResults (estimateViewModel s') \<and> \<not> isSubmitted (contactViewModel s')"
proof -
  have "states (flowState submittedStore) \<noteq> None"
    by code_simp
  with selection_then_input_invalidates
         [where srv = exampleServices and m = exampleMatch and s = submittedStore]
  show ?thesis by blast
qed

section \<open>Submitting while the form is processing\<close>

text \<open>
  Claim C6. \<open>submitAddress\<close> called in the state \<open>addressFormProcessing\<close> or
  \<open>modalAddressFormProcessing\<close>, and \<open>submitContact\<close> called in the state
  \<open>contactFormProcessing\<close>, return the store as it was: no transition fired, no request
  made, no field of a view-model changed.
\<close>

theorem submit_while_processing_is_noop:
  "(flowState s = ''addressFormProcessing'' \<or> flowState s = ''modalAddressFormProcessing''
      \<longrightarrow> submitAddress srv options s = Inr s) \<and>
   (flowState s = ''contactFormProcessing'' \<longrightarrow> submitContact srv options s = Inr s)"
  by (simp add: submitAddress_def submitContact_def)

theorem submit_while_processing_is_noop_witness:
  "submitAddress exampleServices [] (selectedStore\<lparr>flowState := ''modalAddressFormProcessing''\<rparr>) =
     Inr (selectedStore\<lparr>flowState := ''modalAddressFormProcessing''\<rparr>) \<and>
   submitContact exampleServices [] (selectedStore\<lparr>flowState := ''contactFormProcessing''\<rparr>) =
     Inr (selectedStore\<lparr>flowState := ''contactFormProcessing''\<rparr>)"
  using submit_while_processing_is_noop
          [where s = "selectedStore\<lparr>flowState := ''modalAddressFormProcessing''\<rparr>"
             and srv = exampleServices and options = "[]"]
        submit_while_processing_is_noop
          [where s = "selectedStore\<lparr>flowState := ''contactFormProcessing''\<rparr>"
             and srv = exampleServices and options = "[]"]
  by simp

section \<open>submitAddress\<close>

lemma submitAddress_prefix:
  assumes "flowState s \<in> addressFormStates"
  shows "\<exists>props. submitAddress srv options s =
     leave (tryCatch (submitAddress_try srv options) submitAddress_catch
        (s\<lparr>addressViewModel := (addressViewModel s)\<lparr>errorMessage := []\<rparr>,
           flowState := afterEvent (flowState s) ''SUBMIT_ADDRESS'',
           trace := trace s @ [Blur, Transition (flowState s) ''SUBMIT_ADDRESS'',
                               TrackEvent ''Address Submitted'' props]\<rparr>))"
  using assms unfolding addressFormStates_def
  by (auto simp: submitAddress_def Let_def andThen_def fireInBlock_def fireTransition_def
      afterEvent_def trackAddressSubmitted_def trackEvent_def transition_from_address_forms
      defined_from_address_forms)

lemma afterEvent_processing:
  assumes "st \<in> addressFormStates"
  shows "afterEvent st ''SUBMIT_ADDRESS'' = ''addressFormProcessing'' \<or>
         afterEvent st ''SUBMIT_ADDRESS'' = ''modalAddressFormProcessing''"
  using assms unfolding addressFormStates_def
  by (auto simp: afterEvent_def defined_from_address_forms)

lemma fire_from_processing:
  assumes "flowState s = ''addressFormProcessing'' \<or> flowState s = ''modalAddressFormProcessing''"
  shows "fireTransition SKIP_CONTACT s =
           Inr (s\<lparr>flowState := ''estimateResults'',
                  trace := trace s @ [Transition (flowState s) ''SKIP_CONTACT'']\<rparr>)"
    and "fireTransition SUCCESS s =
           Inr (s\<lparr>flowState := ''contactForm'',
                  trace := trace s @ [Transition (flowState s) ''SUCCESS'']\<rparr>)"
    and "fireTransition ERROR s =
           Inr (s\<lparr>flowState := afterEvent (flowState s) ''ERROR'',
                  trace := trace s @ [Transition (flowState s) ''ERROR'']\<rparr>)"
  using assms
  by (auto simp: fireTransition_def afterEvent_def transition_from_address_processing
      defined_from_address_forms)

text \<open>
  Claim C3. \<open>submitAddress\<close>, called in a state in which \<open>SUBMIT_ADDRESS\<close> is defined. If
  parcel details, estimate results and a contact submission are all there, it fires
  \<open>SKIP_CONTACT\<close> right after \<open>SUBMIT_ADDRESS\<close>, reaches \<open>estimateResults\<close> and makes no
  request. Otherwise, when the requests it makes are answered (parcel details \<open>p\<close>, estimate
  \<open>r\<close>), it requests the parcel details if they are missing, then the estimate if it is
  missing, in that order, then fires \<open>SUCCESS\<close> and reaches \<open>contactForm\<close>. The trace of the
  run is given in full.
\<close>

theorem submitAddress_skip_or_fetch:
  assumes "flowState s \<in> addressFormStates"
  shows
   "(hasParcelDetails (addressViewModel s) \<and> hasResults (estimateViewModel s) \<and>
     isSubmitted (contactViewModel s) \<longrightarrow>
       (\<exists>s' props. submitAddress srv options s = Inr s' \<and>
          flowState s' = ''estimateResults'' \<and>
          trace s' = trace s @
            [Blur, Transition (flowState s) ''SUBMIT_ADDRESS'',
             TrackEvent ''Address Submitted'' props,
             Transition (afterEvent (flowState s) ''SUBMIT_ADDRESS'') ''SKIP_CONTACT''])) \<and>
    (\<not> (hasParcelDetails (addressViewModel s) \<and> hasResults (estimateViewModel s) \<and>
        isSubmitted (contactViewModel s)) \<and>
     (\<not> hasParcelDetails (addressViewModel s) \<longrightarrow>
        fetchParcelDetails srv (selected ll_uuid s) = Inr p) \<and>
     (\<not> hasResults (estimateViewModel s) \<longrightarrow>
        fetchEstimateResults srv
          (fetchEstimatePayload options
             (if hasParcelDetails (addressViewModel s)
              then parcelDetails (addressViewModel s) else Some p)) = Inr r) \<longrightarrow>
       (\<exists>s' props props'. submitAddress srv options s = Inr s' \<and>
          flowState s' = ''contactForm'' \<and>
          trace s' = trace s @
            [Blur, Transition (flowState s) ''SUBMIT_ADDRESS'',
             TrackEvent ''Address Submitted'' props] @
            (if hasParcelDetails (addressViewModel s) then []
             else [FetchParcelDetails (selected ll_uuid s)]) @
            (if hasResults (estimateViewModel s) then []
             else [FetchEstimateResults
                     (fetchEstimatePayload options
                        (if hasParcelDetails (addressViewModel s)
                         then parcelDetails (addressViewModel s) else Some p))]) @
            [Transition (afterEvent (flowState s) ''SUBMIT_ADDRESS'') ''SUCCESS'',
             TrackEvent ''Address Submission Succeeded'' props']))"
proof -
  from submitAddress_prefix [OF assms] obtain props where
    run: "submitAddress srv options s =
     leave (tryCatch (submitAddress_try srv options) submitAddress_catch
        (s\<lparr>addressViewModel := (addressViewModel s)\<lparr>errorMessage := []\<rparr>,
           flowState := afterEvent (flowState s) ''SUBMIT_ADDRESS'',
           trace := trace s @ [Blur, Transition (flowState s) ''SUBMIT_ADDRESS'',
                               TrackEvent ''Address Submitted'' props]\<rparr>))"
    by blast
  note proc = afterEvent_processing [OF assms]
  have skip: "\<exists>s' props. submitAddress srv options s = Inr s' \<and>
          flowState s' = ''estimateResults'' \<and>
          trace s' = trace s @
            [Blur, Transition (flowState s) ''SUBMIT_ADDRESS'',
             TrackEvent ''Address Submitted'' props,
             Transition (afterEvent (flowState s) ''SUBMIT_ADDRESS'') ''SKIP_CONTACT'']"
    if "hasParcelDetails (addressViewModel s)" "hasResults (estimateViewModel s)"
       "isSubmitted (contactViewModel s)"
    using that proc unfolding run
    by (auto simp: leave_def tryCatch_def submitAddress_try_def fireInBlock_def
        fire_from_processing hasParcelDetails_def)
  have fetch: "\<exists>s' props props'. submitAddress srv options s = Inr s' \<and>
          flowState s' = ''contactForm'' \<and>
          trace s' = trace s @
            [Blur, Transition (flowState s) ''SUBMIT_ADDRESS'',
             TrackEvent ''Address Submitted'' props] @
            (if hasParcelDetails (addressViewModel s) then []
             else [FetchParcelDetails (selected ll_uuid s)]) @
            (if hasResults (estimateViewModel s) then []
             else [FetchEstimateResults
                     (fetchEstimatePayload options
                        (if hasParcelDetails (addressViewModel s)
                         then parcelDetails (addressViewModel s) else Some p))]) @
            [Transition (afterEvent (flowState s) ''SUBMIT_ADDRESS'') ''SUCCESS'',
             TrackEvent ''Address Submission Succeeded'' props']"
    if "\<not> (hasParcelDetails (addressViewModel s) \<and> hasResults (estimateViewModel s) \<and>
        isSubmitted (contactViewModel s))"
      and "\<not> hasParcelDetails (addressViewModel s) \<longrightarrow>
        fetchParcelDetails srv (selected ll_uuid s) = Inr p"
      and "\<not> hasResults (estimateViewModel s) \<longrightarrow>
        fetchEstimateResults srv
          (fetchEstimatePayload options
             (if hasParcelDetails (addressViewModel s)
              then parcelDetails (addressViewModel s) else Some p)) = Inr r"
    using that proc unfolding run
    by (auto simp: leave_def tryCatch_def submitAddress_try_def andThen_def
        fetchParcelStep_def fetchEstimateStep_def fireInBlock_def fire_from_processing
        trackAddressSubmissionSucceeded_def trackEvent_def hasParcelDetails_def selected_def
        Let_def)
  from skip fetch show ?thesis
    by blast
qed

theorem submitAddress_skip_or_fetch_witness:
  "(\<exists>s'. submitAddress exampleServices [] submittedStore = Inr s' \<and>
          flowState s' = ''estimateResults'') \<and>
   (\<exists>s'. submitAddress exampleServices [] selectedStore = Inr s' \<and>
          flowState s' = ''contactForm'')"
proof -
  have a: "flowState submittedStore \<in> addressFormStates"
    "hasParcelDetails (addressViewModel submittedStore)"
    "hasResults (estimateViewModel submittedStore)"
    "isSubmitted (contactViewModel submittedStore)"
    by code_simp+
  have b: "flowState selectedStore \<in> addressFormStates"
    "\<not> hasParcelDetails (addressViewModel selectedStore)"
    "\<not> hasResults (estimateViewModel selectedStore)"
    "fetchParcelDetails exampleServices (selected ll_uuid selectedStore) = Inr exampleParcel"
    "fetchEstimateResults exampleServices
       (fetchEstimatePayload [] (Some exampleParcel)) = Inr exampleEstimate"
    by code_simp+
  from submitAddress_skip_or_fetch [OF a(1), where srv = exampleServices and options = "[]"] a(2-4)
  have 1: "\<exists>s'. submitAddress exampleServices [] submittedStore = Inr s' \<and>
          flowState s' = ''estimateResults''"
    by blast
  from submitAddress_skip_or_fetch [OF b(1), where srv = exampleServices and p = exampleParcel
      and options = "[]" and r = exampleEstimate]
    b(2-5)
  have 2: "\<exists>s'. submitAddress exampleServices [] selectedStore = Inr s' \<and>
          flowState s' = ''contactForm''"
    by auto
  from 1 2 show ?thesis by simp
qed

text \<open>
  Claim C9. If the request for the parcel details inside \<open>submitAddress\<close> throws, the error
  message is set and \<open>ERROR\<close> is fired, so that from \<open>addressFormProcessing\<close> the machine
  reaches \<open>addressFormError\<close>; the trace of the run has no estimate request.
\<close>

theorem submitAddress_parcel_failure:
  assumes "flowState s \<in> addressFormStates"
    and "\<not> hasParcelDetails (addressViewModel s)"
    and "fetchParcelDetails srv (selected ll_uuid s) = Inl e"
  shows "\<exists>s' props. submitAddress srv options s = Inr s' \<and>
           errorMessage (addressViewModel s') = addressErrorMessage \<and>
           flowState s' = afterEvent (afterEvent (flowState s) ''SUBMIT_ADDRESS'') ''ERROR'' \<and>
           (flowState s \<in> {''default'', ''addressFormError''} \<longrightarrow>
              afterEvent (flowState s) ''SUBMIT_ADDRESS'' = ''addressFormProcessing'' \<and>
              flowState s' = ''addressFormError'') \<and>
           trace s' = trace s @
             [Blur, Transition (flowState s) ''SUBMIT_ADDRESS'',
              TrackEvent ''Address Submitted'' props,
              FetchParcelDetails (selected ll_uuid s),
              Transition (afterEvent (flowState s) ''SUBMIT_ADDRESS'') ''ERROR'',
              TrackEvent ''Address Submission Failed''
                [(''error_str'', JString addressErrorMessage)]]"
proof -
  from submitAddress_prefix [OF assms(1)] obtain props where
    run: "submitAddress srv options s =
     leave (tryCatch (submitAddress_try srv options) submitAddress_catch
        (s\<lparr>addressViewModel := (addressViewModel s)\<lparr>errorMessage := []\<rparr>,
           flowState := afterEvent (flowState s) ''SUBMIT_ADDRESS'',
           trace := trace s @ [Blur, Transition (flowState s) ''SUBMIT_ADDRESS'',
                               TrackEvent ''Address Submitted'' props]\<rparr>))"
    by blast
  note proc = afterEvent_processing [OF assms(1)]
  have reached: "afterEvent (flowState s) ''SUBMIT_ADDRESS'' = ''addressFormProcessing'' \<and>
      afterEvent (afterEvent (flowState s) ''SUBMIT_ADDRESS'') ''ERROR'' = ''addressFormError''"
    if "flowState s \<in> {''default'', ''addressFormError''}"
    using that
    by (auto simp: afterEvent_def defined_from_address_forms)
  have "\<exists>s'. submitAddress srv options s = Inr s' \<and>
           errorMessage (addressViewModel s') = addressErrorMessage \<and>
           flowState s' = afterEvent (afterEvent (flowState s) ''SUBMIT_ADDRESS'') ''ERROR'' \<and>
           trace s' = trace s @
             [Blur, Transition (flowState s) ''SUBMIT_ADDRESS'',
              TrackEvent ''Address Submitted'' props,
              FetchParcelDetails (selected ll_uuid s),
              Transition (afterEvent (flowState s) ''SUBMIT_ADDRESS'') ''ERROR'',
              TrackEvent ''Address Submission Failed''
                [(''error_str'', JString addressErrorMessage)]]"
    using assms(2,3) proc unfolding run
    by (auto simp: leave_def tryCatch_def submitAddress_try_def andThen_def
        fetchParcelStep_def submitAddress_catch_def fireInBlock_def fire_from_processing
        trackEvent_def hasParcelDetails_def selected_def Let_def)
  with reached show ?thesis
    by auto
qed

theorem submitAddress_parcel_failure_witness:
  "\<exists>s'. submitAddress (streetServices 1) [] selectedStore = Inr s' \<and>
         errorMessage (addressViewModel s') = addressErrorMessage \<and>
         flowState s' = ''addressFormError''"
proof -
  have a: "flowState selectedStore \<in> addressFormStates"
    "\<not> hasParcelDetails (addressViewModel selectedStore)"
    "fetchParcelDetails (streetServices 1) (selected ll_uuid selectedStore) = Inl NetworkError"
    "flowState selectedStore \<in> {''default'', ''addressFormError''}"
    by code_simp+
  from submitAddress_parcel_failure [OF a(1-3), where options = "[]"] a(4)
  show ?thesis by blast
qed

section \<open>submitContact waits for both operations\<close>














text \<open>
  The uninterrupted run of \<open>submitContact\<close> is the schedule in which the four timers run
  out on time and the lead request is answered last.
\<close>

lemma sequence_by_timers:
  "sequenceLotAnalysisSteps c = c\<lparr>lotAnalysisStep := ''Checking lot shape & size...''\<rparr>"
  by (simp add: sequenceLotAnalysisSteps_def analysisSteps_def)

lemma occurAll_append:
  "occurAll (xs @ ys) c = (case occurAll xs c of None \<Rightarrow> None | Some c' \<Rightarrow> occurAll ys c')"
  by (induction xs arbitrary: c) (auto split: option.splits)

lemma occurAll_single: "occurAll [x] c = occur x c"
  by (cases "occur x c") simp_all

lemma submitContact_uninterrupted:
  assumes "submitContact_called options s = Some c0"
    and "createLead srv (createLeadPayload options (subStore c0)) =
           (if ok then Inr () else Inl e)"
  shows "\<exists>c. occurAll [TimerRunsOut 1500, TimerRunsOut 3000, TimerRunsOut 4500,
                        TimerRunsOut 6000, LeadAnswered ok 6000] c0 = Some c \<and>
             submitContact srv options s =
               (case handler c of Threw e' \<Rightarrow> Inl e' | _ \<Rightarrow> Inr (subStore c))"
proof -
  from assms(1) obtain s0 where s0: "submitContact_start options s = (None, s0)"
    "c0 = awaiting s0" "flowState s \<noteq> ''contactFormProcessing''"
    by (auto simp: submitContact_called_def split: if_splits prod.splits option.splits)
  have len: "length analysisSteps = 4" and steps: "analysisSteps ! 1 = ''Checking fire hazard zones...''"
    "analysisSteps ! 2 = ''Checking zoning district...''"
    "analysisSteps ! 3 = ''Checking lot shape & size...''"
    by (simp_all add: analysisSteps_def)
  let ?s1 = "s0\<lparr>contactViewModel := (contactViewModel s0)
                 \<lparr>lotAnalysisStep := ''Checking lot shape & size...''\<rparr>\<rparr>"
  have run: "occurAll [TimerRunsOut 1500, TimerRunsOut 3000, TimerRunsOut 4500,
                        TimerRunsOut 6000] c0 =
      Some \<lparr>subStore = ?s1, timersRun = 4, timerSetAt = 6000, leadAnswer = Pending,
             handler = Awaiting, elapsed = 6000\<rparr>"
    unfolding s0(2)
    by (simp add: awaiting_def showNextStep_def promiseAll_def len)
       (simp add: analysisSteps_def)
  let ?c4 = "\<lparr>subStore = ?s1, timersRun = 4, timerSetAt = 6000, leadAnswer = Pending,
             handler = Awaiting, elapsed = 6000\<rparr>"
  have split: "occurAll [TimerRunsOut 1500, TimerRunsOut 3000, TimerRunsOut 4500,
                        TimerRunsOut 6000, LeadAnswered ok 6000] c0 =
               occur (LeadAnswered ok 6000) ?c4"
    using run
      occurAll_append [of "[TimerRunsOut 1500, TimerRunsOut 3000, TimerRunsOut 4500,
                            TimerRunsOut 6000]" "[LeadAnswered ok 6000]" c0]
    by (simp only: append.simps occurAll_single option.case)
  have payload: "createLeadPayload options s0 = createLeadPayload options (subStore c0)"
    by (simp add: s0(2) awaiting_def)
  have atomic: "submitContact srv options s =
      leave (tryCatch (andThen (submitContact_await srv options) submitContact_resolved)
               submitContact_catch s0)"
    using s0 by (simp add: submitContact_def andThen_def)
  show ?thesis
  proof (cases ok)
    case True
    with assms(2) payload have lead: "createLead srv (createLeadPayload options s0) = Inr ()"
      by simp
    obtain r s' where fin: "tryCatch submitContact_resolved submitContact_catch ?s1 = (r, s')"
      by force
    then have "tryCatch (andThen (submitContact_await srv options) submitContact_resolved)
               submitContact_catch s0 = (r, s')"
      using lead
      by (auto simp: tryCatch_def andThen_def submitContact_await_def sequence_by_timers
          split: prod.splits option.splits)
    with fin True show ?thesis
      unfolding split atomic
      by (cases r) (simp_all add: promiseAll_def finish_def leave_def len)
  next
    case False
    with assms(2) payload have lead: "createLead srv (createLeadPayload options s0) = Inl e"
      by simp
    obtain r s' where fin: "submitContact_catch ?s1 = (r, s')"
      by force
    then have "tryCatch (andThen (submitContact_await srv options) submitContact_resolved)
               submitContact_catch s0 = (r, s')"
      using lead
      by (auto simp: tryCatch_def andThen_def submitContact_await_def sequence_by_timers
          split: prod.splits option.splits)
    with fin False show ?thesis
      unfolding split atomic
      by (cases r) (simp_all add: promiseAll_def finish_def leave_def len)
  qed
qed

section \<open>Closing the modal\<close>

text \<open>
  Claim C5. \<open>handleModalClose\<close>: on the contact form with a contact field filled in, the user
  is asked first, and \<open>EXIT\<close> is fired only if the user confirms; while the contact
  submission is processing, nothing happens at all; in every other state of the modal,
  \<open>EXIT\<close> is fired without a question and leads to \<open>default\<close>.
\<close>

theorem handleModalClose_exit_policy:
  "(flowState s = ''contactForm'' \<and> hasAnyContactDetails (contactViewModel s) \<longrightarrow>
      handleModalClose srv s =
        (if confirm srv exitQuestion
         then Inr (s\<lparr>flowState := ''default'',
                     trace := trace s @ [Confirm exitQuestion True,
                                         Transition ''contactForm'' ''EXIT'',
                                         TrackEvent ''Get Offer Modal Closed'' []]\<rparr>)
         else Inr (s\<lparr>trace := trace s @ [Confirm exitQuestion False]\<rparr>))) \<and>
   (flowState s = ''contactFormProcessing'' \<longrightarrow> handleModalClose srv s = Inr s) \<and>
   (isOpen s \<and> flowState s \<noteq> ''contactFormProcessing'' \<and>
    \<not> (flowState s = ''contactForm'' \<and> hasAnyContactDetails (contactViewModel s)) \<longrightarrow>
      handleModalClose srv s =
        Inr (s\<lparr>flowState := ''default'',
               trace := trace s @ [Transition (flowState s) ''EXIT'',
                                   TrackEvent ''Get Offer Modal Closed'' []]\<rparr>))"
proof -
  have asked: "handleModalClose srv s =
        (if confirm srv exitQuestion
         then Inr (s\<lparr>flowState := ''default'',
                     trace := trace s @ [Confirm exitQuestion True,
                                         Transition ''contactForm'' ''EXIT'',
                                         TrackEvent ''Get Offer Modal Closed'' []]\<rparr>)
         else Inr (s\<lparr>trace := trace s @ [Confirm exitQuestion False]\<rparr>))"
    if "flowState s = ''contactForm''" and "hasAnyContactDetails (contactViewModel s)"
    using that
    by (simp add: handleModalClose_def Let_def fireTransition_def transition_EXIT_modal
        trackEvent_def)
  have refused: "handleModalClose srv s = Inr s" if "flowState s = ''contactFormProcessing''"
    using that by (simp add: handleModalClose_def Let_def)
  have other: "handleModalClose srv s =
        Inr (s\<lparr>flowState := ''default'',
               trace := trace s @ [Transition (flowState s) ''EXIT'',
                                   TrackEvent ''Get Offer Modal Closed'' []]\<rparr>)"
    if "isOpen s" and "flowState s \<noteq> ''contactFormProcessing''"
      and "\<not> (flowState s = ''contactForm'' \<and> hasAnyContactDetails (contactViewModel s))"
  proof -
    from that(2,3) have "handleModalClose srv s =
        (case fireTransition EXIT s of
           Inl e \<Rightarrow> Inl e
         | Inr s2 \<Rightarrow> Inr (trackEvent ''Get Offer Modal Closed'' [] s2))"
      by (auto simp: handleModalClose_def Let_def)
    with fireTransition_EXIT_open [OF that(1)] show ?thesis
      by (simp add: trackEvent_def)
  qed
  from asked refused other show ?thesis
    by blast
qed

theorem handleModalClose_exit_policy_witness:
  "handleModalClose exampleServices contactFormStore =
     Inr (contactFormStore\<lparr>flowState := ''default'',
            trace := trace contactFormStore @
              [Confirm exitQuestion True, Transition ''contactForm'' ''EXIT'',
               TrackEvent ''Get Offer Modal Closed'' []]\<rparr>) \<and>
   handleModalClose (streetServices 0) contactFormStore =
     Inr (contactFormStore\<lparr>trace := trace contactFormStore @ [Confirm exitQuestion False]\<rparr>) \<and>
   handleModalClose exampleServices (contactFormStore\<lparr>flowState := ''contactFormProcessing''\<rparr>) =
     Inr (contactFormStore\<lparr>flowState := ''contactFormProcessing''\<rparr>) \<and>
   handleModalClose (streetServices 0) (contactFormStore\<lparr>flowState := ''estimateResults''\<rparr>) =
     Inr (contactFormStore\<lparr>flowState := ''default'',
            trace := trace contactFormStore @
              [Transition ''estimateResults'' ''EXIT'',
               TrackEvent ''Get Offer Modal Closed'' []]\<rparr>)"
proof -
  have a: "flowState contactFormStore = ''contactForm''"
    "hasAnyContactDetails (contactViewModel contactFormStore)"
    "confirm exampleServices exitQuestion" "\<not> confirm (streetServices 0) exitQuestion"
    by code_simp+
  have b: "isOpen (contactFormStore\<lparr>flowState := ''estimateResults''\<rparr>)"
    by (simp add: isOpen_def)
  from handleModalClose_exit_policy [where s = contactFormStore and srv = exampleServices] a
  have 1: "handleModalClose exampleServices contactFormStore =
     Inr (contactFormStore\<lparr>flowState := ''default'',
            trace := trace contactFormStore @
              [Confirm exitQuestion True, Transition ''contactForm'' ''EXIT'',
               TrackEvent ''Get Offer Modal Closed'' []]\<rparr>)"
    by simp
  from handleModalClose_exit_policy [where s = contactFormStore and srv = "streetServices 0"] a
  have 2: "handleModalClose (streetServices 0) contactFormStore =
     Inr (contactFormStore\<lparr>trace := trace contactFormStore @ [Confirm exitQuestion False]\<rparr>)"
    by simp
  from handleModalClose_exit_policy
         [where s = "contactFormStore\<lparr>flowState := ''contactFormProcessing''\<rparr>"
            and srv = exampleServices]
  have 3: "handleModalClose exampleServices
             (contactFormStore\<lparr>flowState := ''contactFormProcessing''\<rparr>) =
     Inr (contactFormStore\<lparr>flowState := ''contactFormProcessing''\<rparr>)"
    by simp
  from handleModalClose_exit_policy
         [where s = "contactFormStore\<lparr>flowState := ''estimateResults''\<rparr>"
            and srv = "streetServices 0"] b
  have 4: "handleModalClose (streetServices 0)
             (contactFormStore\<lparr>flowState := ''estimateResults''\<rparr>) =
     Inr (contactFormStore\<lparr>flowState := ''default'',
            trace := trace contactFormStore @
              [Transition ''estimateResults'' ''EXIT'',
               TrackEvent ''Get Offer Modal Closed'' []]\<rparr>)"
    by simp
  from 1 2 3 4 show ?thesis by simp
qed

text \<open>
  The standalone script has the older \<open>handleModalClose\<close>, which fires \<open>EXIT\<close> in every
  state, also while the contact submission is processing.
\<close>

lemma handleModalClose_index_processing:
  "flowState s = ''contactFormProcessing'' \<Longrightarrow>
   handleModalClose_index s =
     Inr (s\<lparr>flowState := ''default'',
            trace := trace s @ [Transition ''contactFormProcessing'' ''EXIT'',
                                TrackEvent ''Get Offer Modal Closed'' []]\<rparr>)"
  by (simp add: handleModalClose_index_def fireTransition_def transition_EXIT_modal
      trackEvent_def)

end
